theory Spec2Isabelle
  imports Main "HOL-Library.AList"
begin

section \<open>The cut-flow filters of rootpy/tree/filtering.py\<close>

subsection \<open>Exceptions and dictionaries\<close>

text \<open>
  The exceptions the module raises, with their messages. \<open>KeyError\<close> carries the
  missing key. \<open>Raised\<close> stands for any other exception that a hook or an
  overridden \<open>passes\<close> or \<open>filtered\<close> method may raise.
\<close>

datatype error =
    ValueError string
  | KeyError string
  | TypeError string
  | NotImplementedError string
  | Raised string

text \<open>
  A Python dict is kept as the list of its items in insertion order. \<open>getitem d k\<close>
  is \<open>d[k]\<close>, \<open>keys d\<close> is \<open>d.keys()\<close>, and \<open>dict ps\<close> is the constructor
  \<open>dict(ps)\<close> on a list of pairs: a later pair overwrites the value of an earlier one
  with the same key. A well-formed dict has no key twice.
\<close>

type_synonym ('k, 'v) pydict = "('k \<times> 'v) list"

definition getitem :: "(string, 'v) pydict \<Rightarrow> string \<Rightarrow> error + 'v" where
  "getitem d k = (case map_of d k of None \<Rightarrow> Inl (KeyError k) | Some v \<Rightarrow> Inr v)"

definition keys :: "('k, 'v) pydict \<Rightarrow> 'k list" where
  "keys d = map fst d"

definition dict :: "('k \<times> 'v) list \<Rightarrow> ('k, 'v) pydict" where
  "dict ps = foldl (\<lambda>d (k, v). AList.update k v d) [] ps"

definition wf_dict :: "('k, 'v) pydict \<Rightarrow> bool" where
  "wf_dict d = distinct (keys d)"

subsection \<open>Calls that leave the module\<close>

text \<open>
  Calling a hook or an overridden method runs code outside this module. Each such call
  is recorded, in order, in a log that the evaluation functions take and return:
  \<open>Hook t as\<close> for a hook's \<open>self.target(*self.args)\<close>, \<open>Passes n event\<close> for
  \<open>self.passes(event)\<close> of the stage named \<open>n\<close>, \<open>Filtered n event collection\<close> for
  \<open>self.filtered(event, collection)\<close>.
\<close>

datatype ('ev, 'o) effect =
    Hook string "string list"
  | Passes string 'ev
  | Filtered string 'ev "'o list"

text \<open>
  \<open>FilterHook\<close>: a target and its arguments, known by their names. What the call
  \<open>self.target(*self.args)\<close> does is the target's affair: it returns (\<open>raises = None\<close>)
  or it raises an exception.
\<close>

record FilterHook =
  target :: string
  args :: "string list"
  raises :: "error option"

text \<open>\<open>FilterHook.__call__\<close>\<close>

definition FilterHook_call ::
  "FilterHook \<Rightarrow> ('ev, 'o) effect list \<Rightarrow> (error + unit) \<times> ('ev, 'o) effect list"
where
  "FilterHook_call self w =
     (case raises self of
        None \<Rightarrow> (Inr (), w @ [Hook (target self) (args self)])
      | Some e \<Rightarrow> (Inl e, w @ [Hook (target self) (args self)]))"

subsection \<open>Filter\<close>

text \<open>\<open>hooks\<close> is \<open>None\<close> by default, otherwise a list of hooks.\<close>

record Filter =
  name :: string
  total :: int
  passing :: int
  details :: "(string, int) pydict"
  hooks :: "FilterHook list option"
  passthrough :: bool

text \<open>\<open>Filter.__init__\<close>; the first argument is \<open>self.__class__.__name__\<close>.\<close>

definition Filter_init :: "string \<Rightarrow> FilterHook list option \<Rightarrow> bool \<Rightarrow> Filter" where
  "Filter_init cls hs pt =
     \<lparr>name = cls, total = 0, passing = 0, details = [], hooks = hs, passthrough = pt\<rparr>"

text \<open>
  The list comprehension of \<open>Filter.add\<close>: for every key of \<open>left.details\<close>, in order,
  the pair of the key and \<open>left.details[detail] + right.details[detail]\<close>. The first
  lookup that misses raises \<open>KeyError\<close> and ends the comprehension.
\<close>

fun detail_sums ::
  "(string, int) pydict \<Rightarrow> (string, int) pydict \<Rightarrow> string list \<Rightarrow> error + (string \<times> int) list"
where
  "detail_sums l r [] = Inr []"
| "detail_sums l r (detail # ds) =
     (case getitem l detail of
        Inl e \<Rightarrow> Inl e
      | Inr x \<Rightarrow>
          (case getitem r detail of
             Inl e \<Rightarrow> Inl e
           | Inr y \<Rightarrow>
               (case detail_sums l r ds of
                  Inl e \<Rightarrow> Inl e
                | Inr ps \<Rightarrow> Inr ((detail, x + y) # ps))))"

text \<open>
  The body of \<open>Filter.add\<close> up to its last statement: the value of the local variable
  \<open>newfilter\<close> when the body ends, or the exception raised before.
\<close>

definition add_newfilter :: "'a Filter_scheme \<Rightarrow> 'b Filter_scheme \<Rightarrow> error + Filter" where
  "add_newfilter left right =
     (if name left \<noteq> name right
      then Inl (ValueError ''Attemping to add filters with different names'')
      else
        let newfilter = Filter_init ''Filter'' None False;
            newfilter = newfilter\<lparr>name := name left\<rparr>;
            newfilter = newfilter\<lparr>total := total left + total right\<rparr>;
            newfilter = newfilter\<lparr>passing := passing left + passing right\<rparr>
        in (case detail_sums (details left) (details right) (keys (details left)) of
              Inl e \<Rightarrow> Inl e
            | Inr ps \<Rightarrow> Inr (newfilter\<lparr>details := dict ps\<rparr>)))"


text \<open>\<open>for hook in self.hooks: hook()\<close>: the first hook that raises ends the loop.\<close>

fun run_hooks ::
  "FilterHook list \<Rightarrow> ('ev, 'o) effect list \<Rightarrow> (error + unit) \<times> ('ev, 'o) effect list"
where
  "run_hooks [] w = (Inr (), w)"
| "run_hooks (hook # rest) w =
     (case FilterHook_call hook w of
        (Inl e, w) \<Rightarrow> (Inl e, w)
      | (Inr _, w) \<Rightarrow> run_hooks rest w)"

text \<open>\<open>if self.hooks: for hook in self.hooks: hook()\<close>\<close>

definition call_hooks ::
  "'a Filter_scheme \<Rightarrow> ('ev, 'o) effect list \<Rightarrow> (error + unit) \<times> ('ev, 'o) effect list"
where
  "call_hooks self w =
     (case hooks self of
        None \<Rightarrow> (Inr (), w)
      | Some hs \<Rightarrow> if hs = [] then (Inr (), w) else run_hooks hs w)"

subsection \<open>EventFilter\<close>

text \<open>
  A concrete stage overrides \<open>passes(self, event)\<close>; the field holds the method of the
  stage's class. The method is given the attributes of \<open>self\<close> that \<open>Filter\<close> declares and
  the event. It returns a truth value or raises, and in both cases it may have written
  \<open>self.details\<close>: the second component is \<open>self.details\<close> as the method leaves it.
\<close>

record 'ev EventFilter = Filter +
  passes :: "Filter \<Rightarrow> 'ev \<Rightarrow> (error + bool) \<times> (string, int) pydict"

text \<open>\<open>EventFilter.passes\<close>, the method a subclass inherits when it overrides nothing.\<close>

definition EventFilter_passes :: "Filter \<Rightarrow> 'ev \<Rightarrow> (error + bool) \<times> (string, int) pydict" where
  "EventFilter_passes self event =
     (Inl (NotImplementedError ''You must override this method in your derived class''),
      details self)"

text \<open>
  \<open>EventFilter.__call__\<close>. The result is the returned value or the exception, the stage
  as the call leaves it, and the log.
\<close>

definition EventFilter_call ::
  "'ev EventFilter \<Rightarrow> 'ev \<Rightarrow> ('ev, 'o) effect list
     \<Rightarrow> (error + bool) \<times> 'ev EventFilter \<times> ('ev, 'o) effect list"
where
  "EventFilter_call self event w =
     (let self = self\<lparr>total := total self + 1\<rparr> in
      case (if passthrough self then (Inr True, self, w)
            else (case passes self (Filter.truncate self) event of
                    (r, d) \<Rightarrow> (r, self\<lparr>details := d\<rparr>, w @ [Passes (name self) event]))) of
        (Inl e, self, w) \<Rightarrow> (Inl e, self, w)
      | (Inr b, self, w) \<Rightarrow>
          if b then
            (case call_hooks self w of
               (Inl e, w) \<Rightarrow> (Inl e, self, w)
             | (Inr _, w) \<Rightarrow> (Inr True, self\<lparr>passing := passing self + 1\<rparr>, w))
          else (Inr False, self, w))"

subsection \<open>ObjectFilter\<close>

text \<open>
  \<open>filtered(self, event, collection)\<close> is overridden like \<open>passes\<close>: it returns the
  narrowed collection or raises, and gives \<open>self.details\<close> as it leaves it.
\<close>

record ('ev, 'o) ObjectFilter = Filter +
  count_events :: bool
  filtered :: "Filter \<Rightarrow> 'ev \<Rightarrow> 'o list \<Rightarrow> (error + 'o list) \<times> (string, int) pydict"

definition ObjectFilter_filtered ::
  "Filter \<Rightarrow> 'ev \<Rightarrow> 'o list \<Rightarrow> (error + 'o list) \<times> (string, int) pydict"
where
  "ObjectFilter_filtered self event collection =
     (Inl (NotImplementedError ''You must override this method in your derived class''),
      details self)"

text \<open>
  The first statement of \<open>ObjectFilter.__call__\<close>: the input is counted, as one event or
  as so many objects.
\<close>

definition count_input :: "('ev, 'o) ObjectFilter \<Rightarrow> 'o list \<Rightarrow> ('ev, 'o) ObjectFilter" where
  "count_input self collection =
     (if count_events self then self\<lparr>total := total self + 1\<rparr>
      else self\<lparr>total := total self + int (length collection)\<rparr>)"

text \<open>\<open>ObjectFilter.__call__\<close>; a collection is the list of its objects.\<close>

definition ObjectFilter_call ::
  "('ev, 'o) ObjectFilter \<Rightarrow> 'ev \<Rightarrow> 'o list \<Rightarrow> ('ev, 'o) effect list
     \<Rightarrow> (error + 'o list) \<times> ('ev, 'o) ObjectFilter \<times> ('ev, 'o) effect list"
where
  "ObjectFilter_call self event collection w =
     (let self = count_input self collection in
      case (if \<not> passthrough self
            then (case filtered self (Filter.truncate self) event collection of
                    (r, d) \<Rightarrow>
                      (r, self\<lparr>details := d\<rparr>, w @ [Filtered (name self) event collection]))
            else (Inr collection, self, w)) of
        (Inl e, self, w) \<Rightarrow> (Inl e, self, w)
      | (Inr collection, self, w) \<Rightarrow>
          (Inr collection,
           (if length collection > 0
            then (if count_events self then self\<lparr>passing := passing self + 1\<rparr>
                  else self\<lparr>passing := passing self + int (length collection)\<rparr>)
            else self),
           w))"

subsection \<open>Python objects and the kind checks\<close>

text \<open>
  The objects that can be handed to a list: \<open>None\<close>, an integer, an instance of
  \<open>Filter\<close> itself, of \<open>EventFilter\<close> or of \<open>ObjectFilter\<close> (or of a subclass of these).
\<close>

datatype ('ev, 'o) pyobj =
    PyNone
  | PyInt int
  | PyFilter Filter
  | PyEventFilter "'ev EventFilter"
  | PyObjectFilter "('ev, 'o) ObjectFilter"

text \<open>\<open>isinstance(x, Filter)\<close>, \<open>isinstance(x, EventFilter)\<close>, \<open>isinstance(x, ObjectFilter)\<close>\<close>

fun isinstance_Filter :: "('ev, 'o) pyobj \<Rightarrow> bool" where
  "isinstance_Filter (PyFilter f) = True"
| "isinstance_Filter (PyEventFilter f) = True"
| "isinstance_Filter (PyObjectFilter f) = True"
| "isinstance_Filter x = False"



text \<open>
  \<open>Filter.add\<close>, as seen by its caller. The body builds \<open>newfilter\<close> and ends without a
  \<open>return\<close> statement, so a call that raises nothing returns \<open>None\<close>.
  \<open>__add__\<close> returns what \<open>Filter.add\<close> returns.
\<close>

definition add :: "'a Filter_scheme \<Rightarrow> 'b Filter_scheme \<Rightarrow> error + ('ev, 'o) pyobj" where
  "add left right =
     (case add_newfilter left right of
        Inl e \<Rightarrow> Inl e
      | Inr newfilter \<Rightarrow> Inr PyNone)"

definition Filter_add :: "'a Filter_scheme \<Rightarrow> 'b Filter_scheme \<Rightarrow> error + ('ev, 'o) pyobj" where
  "Filter_add self other = add self other"

subsection \<open>FilterList\<close>

text \<open>
  A \<open>FilterList\<close> holds objects; \<open>append\<close> changes the list in place, so it returns the
  outcome together with the list as the call leaves it.
\<close>

definition FilterList_append ::
  "('ev, 'o) pyobj list \<Rightarrow> ('ev, 'o) pyobj \<Rightarrow> (error + unit) \<times> ('ev, 'o) pyobj list"
where
  "FilterList_append self filter' =
     (if \<not> isinstance_Filter filter'
      then (Inl (TypeError ''FilterList can only hold objects inheriting from Filter''), self)
      else (Inr (), self @ [filter']))"

text \<open>
  \<open>FilterList.merge\<close>: the loop over \<open>zip(list1, list2)\<close>, with the list built so far.
  An exception leaves the loop and the function; the local list is lost.
\<close>

fun merge_loop ::
  "('ev, 'o) pyobj list \<Rightarrow> ('a Filter_scheme \<times> 'b Filter_scheme) list
     \<Rightarrow> error + ('ev, 'o) pyobj list"
where
  "merge_loop filterlist [] = Inr filterlist"
| "merge_loop filterlist ((f1, f2) # rest) =
     (case Filter_add f1 f2 of
        Inl e \<Rightarrow> Inl e
      | Inr s \<Rightarrow>
          (case FilterList_append filterlist s of
             (Inl e, _) \<Rightarrow> Inl e
           | (Inr _, filterlist) \<Rightarrow> merge_loop filterlist rest))"

definition merge ::
  "'a Filter_scheme list \<Rightarrow> 'b Filter_scheme list \<Rightarrow> error + ('ev, 'o) pyobj list"
where
  "merge list1 list2 = merge_loop [] (zip list1 list2)"

subsection \<open>EventFilterList and ObjectFilterList\<close>

text \<open>
  The stages are objects that \<open>__call__\<close> changes in place, and a list holds references
  to them: the same stage may stand at several positions. A store gives the object
  behind each reference. \<open>EventFilterList.__call__\<close> returns the outcome, the store as
  the call leaves it, and the log; the list itself is not changed.
\<close>

type_synonym ref = nat

type_synonym 'ev store = "ref \<Rightarrow> 'ev EventFilter"

fun EventFilterList_call ::
  "ref list \<Rightarrow> 'ev \<Rightarrow> 'ev store \<Rightarrow> ('ev, 'o) effect list
     \<Rightarrow> (error + bool) \<times> 'ev store \<times> ('ev, 'o) effect list"
where
  "EventFilterList_call [] event h w = (Inr True, h, w)"
| "EventFilterList_call (filter' # rest) event h w =
     (case EventFilter_call (h filter') event w of
        (Inl e, stage, w) \<Rightarrow> (Inl e, h(filter' := stage), w)
      | (Inr b, stage, w) \<Rightarrow>
          if \<not> b then (Inr False, h(filter' := stage), w)
          else EventFilterList_call rest event (h(filter' := stage)) w)"

text \<open>
  A driver submits the events one after the other, whatever each call returns or
  raises; \<open>submit\<close> gives the store and the log after the last event.
\<close>

fun submit ::
  "ref list \<Rightarrow> 'ev list \<Rightarrow> 'ev store \<Rightarrow> ('ev, 'o) effect list
     \<Rightarrow> 'ev store \<times> ('ev, 'o) effect list"
where
  "submit stages [] h w = (h, w)"
| "submit stages (event # events) h w =
     (case EventFilterList_call stages event h w of
        (r, h, w) \<Rightarrow> submit stages events h w)"




subsection \<open>Repeated calls and the notions the properties use\<close>

text \<open>
  A stage called on one input after the other, whatever each call returns or raises:
  the stage and the log after the last call.
\<close>

fun EventFilter_calls ::
  "'ev EventFilter \<Rightarrow> 'ev list \<Rightarrow> ('ev, 'o) effect list
     \<Rightarrow> 'ev EventFilter \<times> ('ev, 'o) effect list"
where
  "EventFilter_calls self [] w = (self, w)"
| "EventFilter_calls self (event # events) w =
     (case EventFilter_call self event w of
        (r, self, w) \<Rightarrow> EventFilter_calls self events w)"

fun ObjectFilter_calls ::
  "('ev, 'o) ObjectFilter \<Rightarrow> ('ev \<times> 'o list) list \<Rightarrow> ('ev, 'o) effect list
     \<Rightarrow> ('ev, 'o) ObjectFilter \<times> ('ev, 'o) effect list"
where
  "ObjectFilter_calls self [] w = (self, w)"
| "ObjectFilter_calls self ((event, collection) # calls) w =
     (case ObjectFilter_call self event collection w of
        (r, self, w) \<Rightarrow> ObjectFilter_calls self calls w)"

text \<open>The counter invariant of a stage.\<close>

definition counted :: "'a Filter_scheme \<Rightarrow> bool" where
  "counted f = (0 \<le> passing f \<and> passing f \<le> total f)"

text \<open>
  In a list of stages, each stage has seen what the stage before it let through.
\<close>

fun chained :: "(ref \<Rightarrow> 'a Filter_scheme) \<Rightarrow> ref list \<Rightarrow> bool" where
  "chained h [] = True"
| "chained h [r] = True"
| "chained h (r # s # rest) = (total (h s) = passing (h r) \<and> chained h (s # rest))"

text \<open>
  The three parts of one call of \<open>EventFilter.__call__\<close>, read off a call on the empty
  log: what the stage returns or raises for the event, the stage as the call leaves it,
  and the calls it adds to the log.
\<close>

definition returned :: "'ev EventFilter \<Rightarrow> 'ev \<Rightarrow> error + bool" where
  "returned self event = fst (EventFilter_call self event ([] :: ('ev, unit) effect list))"

definition stage_after :: "'ev EventFilter \<Rightarrow> 'ev \<Rightarrow> 'ev EventFilter" where
  "stage_after self event = fst (snd (EventFilter_call self event ([] :: ('ev, unit) effect list)))"

definition stage_effects :: "'ev EventFilter \<Rightarrow> 'ev \<Rightarrow> ('ev, 'o) effect list" where
  "stage_effects self event = snd (snd (EventFilter_call self event []))"

text \<open>The hooks of a stage, none when \<open>hooks\<close> is \<open>None\<close>, and the log entry of a hook.\<close>

definition hooks_of :: "'a Filter_scheme \<Rightarrow> FilterHook list" where
  "hooks_of self = (case hooks self of None \<Rightarrow> [] | Some hs \<Rightarrow> hs)"

definition hook_entry :: "FilterHook \<Rightarrow> ('ev, 'o) effect" where
  "hook_entry hook = Hook (target hook) (args hook)"

section \<open>Properties\<close>

subsection \<open>Dictionaries and the sums of \<open>Filter.add\<close>\<close>

lemma in_keys_iff: "k \<in> set (keys d) \<longleftrightarrow> map_of d k \<noteq> None"
  by (simp add: keys_def map_of_eq_None_iff)

lemma detail_sums_error:
  "set ds \<subseteq> set (keys l) \<Longrightarrow> detail_sums l r ds = Inl e \<Longrightarrow>
     \<exists>k. k \<in> set ds \<and> k \<notin> set (keys r) \<and> e = KeyError k"
proof (induction ds)
  case Nil
  then show ?case by simp
next
  case (Cons d ds)
  then show ?case
    by (auto simp: getitem_def in_keys_iff split: option.splits sum.splits)
qed

lemma detail_sums_ok:
  "set ds \<subseteq> set (keys l) \<Longrightarrow> set ds \<subseteq> set (keys r) \<Longrightarrow>
     \<exists>ps. detail_sums l r ds = Inr ps \<and> map fst ps = ds \<and>
       (\<forall>(k, v) \<in> set ps. \<exists>x y. map_of l k = Some x \<and> map_of r k = Some y \<and> v = x + y)"
proof (induction ds)
  case Nil
  then show ?case by simp
next
  case (Cons d ds)
  then obtain ps where ps: "detail_sums l r ds = Inr ps" "map fst ps = ds"
    "\<forall>(k, v) \<in> set ps. \<exists>x y. map_of l k = Some x \<and> map_of r k = Some y \<and> v = x + y"
    by auto
  from Cons.prems obtain x y where "map_of l d = Some x" "map_of r d = Some y"
    by (auto simp: in_keys_iff)
  with ps show ?case
    by (simp add: getitem_def)
qed

lemma detail_sums_missing:
  "k \<in> set ds \<Longrightarrow> k \<notin> set (keys r) \<Longrightarrow> \<exists>e. detail_sums l r ds = Inl e"
  by (induction ds) (auto simp: getitem_def in_keys_iff split: option.splits sum.splits)

lemma map_of_foldl_update:
  "map_of (foldl (\<lambda>d (k, v). AList.update k v d) acc ps) k =
     (case map_of (rev ps) k of None \<Rightarrow> map_of acc k | Some v \<Rightarrow> Some v)"
  by (induction ps arbitrary: acc) (auto simp: AList.update_conv' map_add_def split: option.splits)

lemma keys_foldl_update:
  "fst ` set (foldl (\<lambda>d (k, v). AList.update k v d) acc ps) = fst ` set acc \<union> fst ` set ps"
  by (induction ps arbitrary: acc) (simp_all add: AList.dom_update case_prod_beta Un_ac)

lemma distinct_foldl_update:
  "distinct (map fst acc) \<Longrightarrow> distinct (map fst (foldl (\<lambda>d (k, v). AList.update k v d) acc ps))"
  by (induction ps arbitrary: acc) (auto simp: AList.distinct_update)

lemma wf_dict_dict: "wf_dict (dict ps)"
  by (simp add: wf_dict_def keys_def dict_def distinct_foldl_update)

lemma keys_dict: "set (keys (dict ps)) = fst ` set ps"
  by (simp add: keys_def dict_def keys_foldl_update)

lemma map_of_dict: "map_of (dict ps) k = map_of (rev ps) k"
  by (simp add: dict_def map_of_foldl_update split: option.splits)

lemma map_of_functional:
  "\<forall>(k, v) \<in> set ps. v = f k \<Longrightarrow> map_of ps k = (if k \<in> fst ` set ps then Some (f k) else None)"
  by (induction ps) auto


lemma add_newfilter_ok:
  assumes "name a = name b" "set (keys (details a)) \<subseteq> set (keys (details b))"
  shows "\<exists>nf. add_newfilter a b = Inr nf \<and> name nf = name a \<and>
           total nf = total a + total b \<and> passing nf = passing a + passing b \<and>
           hooks nf = None \<and> \<not> passthrough nf \<and>
           wf_dict (details nf) \<and> set (keys (details nf)) = set (keys (details a)) \<and>
           (\<forall>k x y. getitem (details a) k = Inr x \<and> getitem (details b) k = Inr y
              \<longrightarrow> getitem (details nf) k = Inr (x + y))"
proof -
  let ?f = "\<lambda>k. the (map_of (details a) k) + the (map_of (details b) k)"
  from detail_sums_ok [of "keys (details a)" "details a" "details b"] assms(2)
  obtain ps where ps: "detail_sums (details a) (details b) (keys (details a)) = Inr ps"
    "map fst ps = keys (details a)"
    "\<forall>(k, v) \<in> set ps. \<exists>x y. map_of (details a) k = Some x \<and> map_of (details b) k = Some y \<and> v = x + y"
    by auto
  from ps(3) have fn: "\<forall>(k, v) \<in> set (rev ps). v = ?f k"
    by fastforce
  have keys_ps: "fst ` set ps = set (keys (details a))"
    using ps(2) by (metis set_map)
  have lookup: "map_of (dict ps) k = (if k \<in> set (keys (details a)) then Some (?f k) else None)" for k
    using map_of_functional [OF fn, of k] keys_ps by (simp add: map_of_dict)
  have sums: "getitem (dict ps) k = Inr (x + y)"
    if "getitem (details a) k = Inr x" "getitem (details b) k = Inr y" for k x y
    using that lookup [of k]
    by (auto simp: getitem_def in_keys_iff split: option.splits)
  show ?thesis
    using assms(1) ps(1) sums
    by (simp add: add_newfilter_def Filter_init_def Let_def wf_dict_dict keys_dict keys_ps)
qed

subsection \<open>Filter.add\<close>

text \<open>
  Claim C1, amended. \<open>Filter.add\<close> fails with the \<open>ValueError\<close> of a name mismatch when
  the two names differ. With equal names it fails with a \<open>KeyError\<close> exactly when some key
  of \<open>left.details\<close> is missing from \<open>right.details\<close>, and the error names such a key; keys
  that only \<open>right.details\<close> has are ignored. Otherwise the call raises nothing, and the
  filter it builds has the name of \<open>left\<close>, the sum of the two totals, the sum of the two
  passing counts, and a well-formed \<open>details\<close> over the keys of \<open>left.details\<close> that maps
  each of them to the sum of the two values.
\<close>

theorem add_sums_over_left_keys:
  fixes a :: "'a Filter_scheme" and b :: "'b Filter_scheme"
  shows
  "(name a \<noteq> name b \<longrightarrow>
      (add a b :: error + ('ev, 'o) pyobj)
        = Inl (ValueError ''Attemping to add filters with different names''))
   \<and> (name a = name b \<and> \<not> set (keys (details a)) \<subseteq> set (keys (details b)) \<longrightarrow>
      (\<exists>k. k \<in> set (keys (details a)) \<and> k \<notin> set (keys (details b))
           \<and> (add a b :: error + ('ev, 'o) pyobj) = Inl (KeyError k)))
   \<and> (name a = name b \<and> set (keys (details a)) \<subseteq> set (keys (details b)) \<longrightarrow>
      (\<exists>v. (add a b :: error + ('ev, 'o) pyobj) = Inr v)
      \<and> (\<exists>nf. add_newfilter a b = Inr nf \<and> name nf = name a
           \<and> total nf = total a + total b \<and> passing nf = passing a + passing b
           \<and> wf_dict (details nf) \<and> set (keys (details nf)) = set (keys (details a))
           \<and> (\<forall>k x y. getitem (details a) k = Inr x \<and> getitem (details b) k = Inr y
                \<longrightarrow> getitem (details nf) k = Inr (x + y))))"
proof (intro conjI impI)
  assume "name a \<noteq> name b"
  then show "(add a b :: error + ('ev, 'o) pyobj)
        = Inl (ValueError ''Attemping to add filters with different names'')"
    by (simp add: add_def add_newfilter_def)
next
  assume h: "name a = name b \<and> \<not> set (keys (details a)) \<subseteq> set (keys (details b))"
  then obtain k0 where k0: "k0 \<in> set (keys (details a))" "k0 \<notin> set (keys (details b))"
    by auto
  from detail_sums_missing [OF k0] obtain e
    where e: "detail_sums (details a) (details b) (keys (details a)) = Inl e"
    by auto
  from detail_sums_error [OF subset_refl e] obtain k
    where "k \<in> set (keys (details a))" "k \<notin> set (keys (details b))" "e = KeyError k"
    by auto
  with h e show "\<exists>k. k \<in> set (keys (details a)) \<and> k \<notin> set (keys (details b))
           \<and> (add a b :: error + ('ev, 'o) pyobj) = Inl (KeyError k)"
    by (auto simp: add_def add_newfilter_def Let_def)
next
  assume h: "name a = name b \<and> set (keys (details a)) \<subseteq> set (keys (details b))"
  from add_newfilter_ok [of a b] h
  obtain nf where nf: "add_newfilter a b = Inr nf" by blast
  then show "\<exists>v. (add a b :: error + ('ev, 'o) pyobj) = Inr v"
    by (simp add: add_def)
next
  assume h: "name a = name b \<and> set (keys (details a)) \<subseteq> set (keys (details b))"
  from add_newfilter_ok [of a b] h
  show "\<exists>nf. add_newfilter a b = Inr nf \<and> name nf = name a
           \<and> total nf = total a + total b \<and> passing nf = passing a + passing b
           \<and> wf_dict (details nf) \<and> set (keys (details nf)) = set (keys (details a))
           \<and> (\<forall>k x y. getitem (details a) k = Inr x \<and> getitem (details b) k = Inr y
                \<longrightarrow> getitem (details nf) k = Inr (x + y))"
    by blast
qed

text \<open>
  Claim C1 as stated fails: here the two key sets differ (only the right filter has the
  key \<open>n\<close>), and the call raises nothing.
\<close>

theorem add_key_mismatch_counterexample:
  "set (keys (details \<lparr>name = ''F'', total = 2, passing = 1, details = [],
                       hooks = None, passthrough = False\<rparr>))
     \<noteq> set (keys (details \<lparr>name = ''F'', total = 3, passing = 2, details = [(''n'', 1)],
                       hooks = None, passthrough = False\<rparr>))
   \<and> (add \<lparr>name = ''F'', total = 2, passing = 1, details = [],
            hooks = None, passthrough = False\<rparr>
          \<lparr>name = ''F'', total = 3, passing = 2, details = [(''n'', 1)],
            hooks = None, passthrough = False\<rparr> :: error + (unit, unit) pyobj) = Inr PyNone"
  by (simp add: add_def add_newfilter_def keys_def Let_def)


text \<open>The three cases of the amended claim C1 at concrete filters.\<close>

theorem add_sums_over_left_keys_witness:
  "(name \<lparr>name = ''F'', total = 2, passing = 1, details = [(''n'', 2)],
            hooks = None, passthrough = False\<rparr>
      = name \<lparr>name = ''F'', total = 3, passing = 2, details = [(''n'', 3), (''m'', 1)],
            hooks = None, passthrough = False\<rparr>
    \<and> set (keys (details \<lparr>name = ''F'', total = 2, passing = 1, details = [(''n'', 2)],
            hooks = None, passthrough = False\<rparr>))
      \<subseteq> set (keys (details \<lparr>name = ''F'', total = 3, passing = 2,
            details = [(''n'', 3), (''m'', 1)], hooks = None, passthrough = False\<rparr>)))
   \<and> (\<exists>nf. add_newfilter
              \<lparr>name = ''F'', total = 2, passing = 1, details = [(''n'', 2)],
                hooks = None, passthrough = False\<rparr>
              \<lparr>name = ''F'', total = 3, passing = 2, details = [(''n'', 3), (''m'', 1)],
                hooks = None, passthrough = False\<rparr> = Inr nf
          \<and> total nf = 5 \<and> passing nf = 3 \<and> set (keys (details nf)) = {''n''}
          \<and> getitem (details nf) ''n'' = Inr 5)
   \<and> (add \<lparr>name = ''F'', total = 2, passing = 1, details = [(''n'', 3), (''m'', 1)],
            hooks = None, passthrough = False\<rparr>
          \<lparr>name = ''F'', total = 3, passing = 2, details = [(''n'', 2)],
            hooks = None, passthrough = False\<rparr> :: error + (unit, unit) pyobj)
        = Inl (KeyError ''m'')
   \<and> (add \<lparr>name = ''F'', total = 2, passing = 1, details = [],
            hooks = None, passthrough = False\<rparr>
          \<lparr>name = ''G'', total = 3, passing = 2, details = [],
            hooks = None, passthrough = False\<rparr> :: error + (unit, unit) pyobj)
        = Inl (ValueError ''Attemping to add filters with different names'')"
proof (intro conjI)
  show "\<exists>nf. add_newfilter
              \<lparr>name = ''F'', total = 2, passing = 1, details = [(''n'', 2)],
                hooks = None, passthrough = False\<rparr>
              \<lparr>name = ''F'', total = 3, passing = 2, details = [(''n'', 3), (''m'', 1)],
                hooks = None, passthrough = False\<rparr> = Inr nf
          \<and> total nf = 5 \<and> passing nf = 3 \<and> set (keys (details nf)) = {''n''}
          \<and> getitem (details nf) ''n'' = Inr 5"
    using add_sums_over_left_keys
      [of "\<lparr>name = ''F'', total = 2, passing = 1, details = [(''n'', 2)],
            hooks = None, passthrough = False\<rparr>"
          "\<lparr>name = ''F'', total = 3, passing = 2, details = [(''n'', 3), (''m'', 1)],
            hooks = None, passthrough = False\<rparr>"]
    by (fastforce simp: keys_def getitem_def)
  show "(add \<lparr>name = ''F'', total = 2, passing = 1, details = [(''n'', 3), (''m'', 1)],
            hooks = None, passthrough = False\<rparr>
          \<lparr>name = ''F'', total = 3, passing = 2, details = [(''n'', 2)],
            hooks = None, passthrough = False\<rparr> :: error + (unit, unit) pyobj)
        = Inl (KeyError ''m'')"
    using add_sums_over_left_keys
      [of "\<lparr>name = ''F'', total = 2, passing = 1, details = [(''n'', 3), (''m'', 1)],
            hooks = None, passthrough = False\<rparr>"
          "\<lparr>name = ''F'', total = 3, passing = 2, details = [(''n'', 2)],
            hooks = None, passthrough = False\<rparr>", where ?'ev = unit and ?'o = unit]
    by (auto simp: keys_def)
  show "(add \<lparr>name = ''F'', total = 2, passing = 1, details = [],
            hooks = None, passthrough = False\<rparr>
          \<lparr>name = ''G'', total = 3, passing = 2, details = [],
            hooks = None, passthrough = False\<rparr> :: error + (unit, unit) pyobj)
        = Inl (ValueError ''Attemping to add filters with different names'')"
    using add_sums_over_left_keys
      [of "\<lparr>name = ''F'', total = 2, passing = 1, details = [],
            hooks = None, passthrough = False\<rparr>"
          "\<lparr>name = ''G'', total = 3, passing = 2, details = [],
            hooks = None, passthrough = False\<rparr>", where ?'ev = unit and ?'o = unit]
    by simp
qed (simp_all add: keys_def)

subsection \<open>FilterList.merge\<close>

text \<open>
  Claim C2, amended. \<open>FilterList.merge\<close> checks no lengths and has no failure for
  lists of different lengths: it pairs the stages by position with \<open>zip\<close>, so its
  outcome is that of merging the two lists cut to the length of the shorter one, and
  merging with an empty list returns an empty list. It combines the pairs with
  \<open>Filter.add\<close>, first stages first: when \<open>Filter.add\<close> fails on the two first stages
  (their names differ, or a detail key of the first is missing in the second), the merge
  fails with that exception and no list comes back.
\<close>

theorem merge_pairs_up_to_shorter:
  fixes a :: "'a Filter_scheme list" and b :: "'b Filter_scheme list"
  shows
  "(merge a b :: error + ('ev, 'o) pyobj list)
      = merge (take (min (length a) (length b)) a) (take (min (length a) (length b)) b)
   \<and> (a = [] \<or> b = [] \<longrightarrow> (merge a b :: error + ('ev, 'o) pyobj list) = Inr [])
   \<and> (\<forall>e. a \<noteq> [] \<and> b \<noteq> []
          \<and> (Filter_add (hd a) (hd b) :: error + ('ev, 'o) pyobj) = Inl e
        \<longrightarrow> (merge a b :: error + ('ev, 'o) pyobj list) = Inl e)"
proof (intro conjI allI impI)
  have "zip (take (min (length a) (length b)) a) (take (min (length a) (length b)) b) = zip a b"
    by (simp add: take_zip [symmetric])
  then show "(merge a b :: error + ('ev, 'o) pyobj list)
      = merge (take (min (length a) (length b)) a) (take (min (length a) (length b)) b)"
    by (simp add: merge_def)
next
  assume "a = [] \<or> b = []"
  then show "(merge a b :: error + ('ev, 'o) pyobj list) = Inr []"
    by (auto simp: merge_def)
next
  fix e
  assume h: "a \<noteq> [] \<and> b \<noteq> []
          \<and> (Filter_add (hd a) (hd b) :: error + ('ev, 'o) pyobj) = Inl e"
  then obtain x xs y ys where "a = x # xs" "b = y # ys"
    by (cases a; cases b) auto
  with h show "(merge a b :: error + ('ev, 'o) pyobj list) = Inl e"
    by (simp add: merge_def)
qed

text \<open>
  Claim C2 as stated fails: the lengths 0 and 1 differ and the merge returns an empty
  list instead of failing.
\<close>

theorem merge_length_counterexample:
  "length ([] :: Filter list)
     \<noteq> length [\<lparr>name = ''F'', total = 3, passing = 2, details = [],
                  hooks = None, passthrough = False\<rparr>]
   \<and> (merge ([] :: Filter list)
         [\<lparr>name = ''F'', total = 3, passing = 2, details = [],
            hooks = None, passthrough = False\<rparr>] :: error + (unit, unit) pyobj list) = Inr []"
  by (simp add: merge_def)

text \<open>
  The amended claim C2 at lists of one and of two stages whose first stages differ in
  name.
\<close>

theorem merge_pairs_up_to_shorter_witness:
  "[\<lparr>name = ''has_lepton'', total = 100, passing = 80, details = [],
        hooks = None, passthrough = False\<rparr>] \<noteq> []
   \<and> [\<lparr>name = ''pt>20'', total = 50, passing = 40, details = [],
        hooks = None, passthrough = False\<rparr>,
       \<lparr>name = ''has_lepton'', total = 40, passing = 25, details = [(''n'', 1)],
        hooks = None, passthrough = False\<rparr>] \<noteq> []
   \<and> length [\<lparr>name = ''has_lepton'', total = 100, passing = 80, details = [],
        hooks = None, passthrough = False\<rparr>] = 1
   \<and> length [\<lparr>name = ''pt>20'', total = 50, passing = 40, details = [],
        hooks = None, passthrough = False\<rparr>,
       \<lparr>name = ''has_lepton'', total = 40, passing = 25, details = [(''n'', 1)],
        hooks = None, passthrough = False\<rparr>] = 2
   \<and> (Filter_add (hd [\<lparr>name = ''has_lepton'', total = 100, passing = 80, details = [],
        hooks = None, passthrough = False\<rparr>])
        (hd [\<lparr>name = ''pt>20'', total = 50, passing = 40, details = [],
        hooks = None, passthrough = False\<rparr>,
       \<lparr>name = ''has_lepton'', total = 40, passing = 25, details = [(''n'', 1)],
        hooks = None, passthrough = False\<rparr>]) :: error + (unit, unit) pyobj)
     = Inl (ValueError ''Attemping to add filters with different names'')
   \<and> (merge [\<lparr>name = ''has_lepton'', total = 100, passing = 80, details = [],
        hooks = None, passthrough = False\<rparr>]
       [\<lparr>name = ''pt>20'', total = 50, passing = 40, details = [],
        hooks = None, passthrough = False\<rparr>,
       \<lparr>name = ''has_lepton'', total = 40, passing = 25, details = [(''n'', 1)],
        hooks = None, passthrough = False\<rparr>] :: error + (unit, unit) pyobj list)
     = Inl (ValueError ''Attemping to add filters with different names'')"
proof -
  have h: "[\<lparr>name = ''has_lepton'', total = 100, passing = 80, details = [],
        hooks = None, passthrough = False\<rparr>] \<noteq> []
   \<and> [\<lparr>name = ''pt>20'', total = 50, passing = 40, details = [],
        hooks = None, passthrough = False\<rparr>,
       \<lparr>name = ''has_lepton'', total = 40, passing = 25, details = [(''n'', 1)],
        hooks = None, passthrough = False\<rparr>] \<noteq> []
   \<and> (Filter_add (hd [\<lparr>name = ''has_lepton'', total = 100, passing = 80, details = [],
        hooks = None, passthrough = False\<rparr>])
        (hd [\<lparr>name = ''pt>20'', total = 50, passing = 40, details = [],
        hooks = None, passthrough = False\<rparr>,
       \<lparr>name = ''has_lepton'', total = 40, passing = 25, details = [(''n'', 1)],
        hooks = None, passthrough = False\<rparr>]) :: error + (unit, unit) pyobj)
     = Inl (ValueError ''Attemping to add filters with different names'')"
    by (simp add: Filter_add_def add_def add_newfilter_def)
  have m: "(merge [\<lparr>name = ''has_lepton'', total = 100, passing = 80, details = [],
        hooks = None, passthrough = False\<rparr>]
       [\<lparr>name = ''pt>20'', total = 50, passing = 40, details = [],
        hooks = None, passthrough = False\<rparr>,
       \<lparr>name = ''has_lepton'', total = 40, passing = 25, details = [(''n'', 1)],
        hooks = None, passthrough = False\<rparr>] :: error + (unit, unit) pyobj list)
     = Inl (ValueError ''Attemping to add filters with different names'')"
    by (rule merge_pairs_up_to_shorter [THEN conjunct2, THEN conjunct2, rule_format, OF h])
  from h m show ?thesis by simp
qed

text \<open>
  Claim C3 says that merging lists built from the same stage sequence is commutative and
  associative in the merged counters. The code gives no merged counters to compare: for
  the two chunk reports (100/80, 80/50) and (50/40, 40/25) of one two-stage list, with
  equal names and equal detail keys at each position, \<open>FilterList.merge\<close> raises the
  \<open>TypeError\<close> of \<open>FilterList.append\<close>, because \<open>Filter.add\<close> returned \<open>None\<close>.
\<close>

theorem merge_same_shape_raises:
  "(merge
      [\<lparr>name = ''has_lepton'', total = 100, passing = 80, details = [],
         hooks = None, passthrough = False\<rparr>,
       \<lparr>name = ''pt>20'', total = 80, passing = 50, details = [],
         hooks = None, passthrough = False\<rparr>]
      [\<lparr>name = ''has_lepton'', total = 50, passing = 40, details = [],
         hooks = None, passthrough = False\<rparr>,
       \<lparr>name = ''pt>20'', total = 40, passing = 25, details = [],
         hooks = None, passthrough = False\<rparr>] :: error + (unit, unit) pyobj list)
     = Inl (TypeError ''FilterList can only hold objects inheriting from Filter'')"
  by (simp add: merge_def Filter_add_def add_def add_newfilter_def keys_def Let_def
      FilterList_append_def)

subsection \<open>One call of an event stage\<close>

lemma run_hooks_split:
  "run_hooks hs w = (fst (run_hooks hs ([] :: ('ev, 'o) effect list)),
                     (w :: ('ev, 'o) effect list) @ snd (run_hooks hs []))"
proof (induction hs arbitrary: w)
  case Nil
  show ?case by simp
next
  case (Cons h hs)
  show ?case
  proof (cases "raises h")
    case None
    with Cons [of "w @ [Hook (target h) (args h)]"] Cons [of "[Hook (target h) (args h)]"]
    show ?thesis by (simp add: FilterHook_call_def)
  next
    case (Some e)
    then show ?thesis by (simp add: FilterHook_call_def)
  qed
qed

lemma call_hooks_split:
  "call_hooks f w = (fst (call_hooks f ([] :: ('ev, 'o) effect list)),
                     (w :: ('ev, 'o) effect list) @ snd (call_hooks f []))"
  using run_hooks_split [of _ w]
  by (auto simp: call_hooks_def split: option.splits)

lemma run_hooks_type:
  "fst (run_hooks hs (w :: ('ev, 'o) effect list)) = fst (run_hooks hs (w' :: ('ev2, 'o2) effect list))"
  by (induction hs arbitrary: w w') (auto simp: FilterHook_call_def split: option.splits)

lemma call_hooks_type:
  "fst (call_hooks f (w :: ('ev, 'o) effect list)) = fst (call_hooks f (w' :: ('ev2, 'o2) effect list))"
  using run_hooks_type [of _ w w']
  by (auto simp: call_hooks_def split: option.splits)

lemma EventFilter_call_split:
  "EventFilter_call f ev w = (returned f ev, stage_after f ev, w @ stage_effects f ev)"
proof -
  let ?f1 = "f\<lparr>total := total f + 1\<rparr>"
  show ?thesis
  proof (cases "passthrough f")
    case True
    then show ?thesis
      using call_hooks_split [of ?f1 w]
        call_hooks_type [of ?f1 "[] :: ('a, 'b) effect list" "[] :: ('a, unit) effect list"]
      by (auto simp: EventFilter_call_def returned_def stage_after_def stage_effects_def
          Let_def split: sum.splits prod.splits)
  next
    case False
    obtain r d where p: "passes f (Filter.truncate ?f1) ev = (r, d)"
      by (cases "passes f (Filter.truncate ?f1) ev") auto
    let ?f2 = "?f1\<lparr>details := d\<rparr>"
    from False p show ?thesis
      using call_hooks_split [of ?f2 "w @ [Passes (name f) ev]"]
        call_hooks_split [of ?f2 "[Passes (name f) ev] :: ('a, 'b) effect list"]
        call_hooks_split [of ?f2 "[Passes (name f) ev] :: ('a, unit) effect list"]
        call_hooks_type [of ?f2 "[] :: ('a, 'b) effect list" "[] :: ('a, unit) effect list"]
      by (auto simp: EventFilter_call_def returned_def stage_after_def stage_effects_def
          Let_def split: sum.splits prod.splits)
  qed
qed

lemma total_stage_after: "total (stage_after f ev) = total f + 1"
  by (auto simp: stage_after_def EventFilter_call_def Let_def split: sum.splits prod.splits)

lemma passing_stage_after:
  "passing (stage_after f ev) = (if returned f ev = Inr True then passing f + 1 else passing f)"
  by (auto simp: stage_after_def returned_def EventFilter_call_def Let_def
      split: sum.splits prod.splits)


subsection \<open>A call of an EventFilterList\<close>

lemma EventFilterList_call_Cons:
  "EventFilterList_call (r # rest) ev h w =
     (case returned (h r) ev of
        Inl e \<Rightarrow> (Inl e, h(r := stage_after (h r) ev), w @ stage_effects (h r) ev)
      | Inr b \<Rightarrow>
          if \<not> b then (Inr False, h(r := stage_after (h r) ev), w @ stage_effects (h r) ev)
          else EventFilterList_call rest ev (h(r := stage_after (h r) ev))
                 (w @ stage_effects (h r) ev))"
  by (simp add: EventFilter_call_split split: sum.splits)

lemma EventFilterList_call_true:
  "returned (h r) ev = Inr True \<Longrightarrow>
     EventFilterList_call (r # rest) ev h w =
       EventFilterList_call rest ev (h(r := stage_after (h r) ev)) (w @ stage_effects (h r) ev)"
  by (simp add: EventFilterList_call_Cons del: EventFilterList_call.simps(2))

lemma EventFilterList_call_not_true:
  "returned (h r) ev \<noteq> Inr True \<Longrightarrow>
     EventFilterList_call (r # rest) ev h w =
       ((case returned (h r) ev of Inl e \<Rightarrow> Inl e | Inr b \<Rightarrow> Inr False),
        h(r := stage_after (h r) ev), w @ stage_effects (h r) ev)"
  by (auto simp: EventFilterList_call_Cons simp del: EventFilterList_call.simps(2)
        split: sum.splits)

lemma EventFilterList_call_frame:
  "r \<notin> set refs \<Longrightarrow> fst (snd (EventFilterList_call refs ev h w)) r = h r"
  by (induction refs arbitrary: h w)
     (auto simp: EventFilterList_call_Cons simp del: EventFilterList_call.simps(2)
        split: sum.splits)

lemma EventFilterList_call_hd:
  "r \<notin> set rest \<Longrightarrow>
     fst (snd (EventFilterList_call (r # rest) ev h w)) r = stage_after (h r) ev"
  by (auto simp: EventFilterList_call_Cons EventFilterList_call_frame
        simp del: EventFilterList_call.simps(2) split: sum.splits)

lemma chained_Cons:
  "chained h (r # rest) = ((rest \<noteq> [] \<longrightarrow> total (h (hd rest)) = passing (h r)) \<and> chained h rest)"
  by (cases rest) simp_all

lemma chained_cong:
  "\<forall>r \<in> set refs. h r = h' r \<Longrightarrow> chained h refs = chained h' refs"
  by (induction refs) (auto simp: chained_Cons)

lemma EventFilterList_call_chained:
  "distinct refs \<Longrightarrow> chained h refs \<Longrightarrow>
     chained (fst (snd (EventFilterList_call refs ev h w))) refs"
proof (induction refs arbitrary: h w)
  case Nil
  show ?case by simp
next
  case (Cons r rest)
  let ?f = "stage_after (h r) ev"
  let ?h1 = "h(r := ?f)"
  let ?w1 = "w @ stage_effects (h r) ev"
  from Cons.prems have r: "r \<notin> set rest" and d: "distinct rest"
    and ch: "chained h rest" and link: "rest \<noteq> [] \<longrightarrow> total (h (hd rest)) = passing (h r)"
    by (simp_all add: chained_Cons)
  from r have same: "\<forall>s \<in> set rest. ?h1 s = h s" by auto
  with ch have ch1: "chained ?h1 rest" using chained_cong [of rest ?h1 h] by simp
  show ?case
  proof (cases "returned (h r) ev = Inr True")
    case True
    let ?h2 = "fst (snd (EventFilterList_call rest ev ?h1 ?w1))"
    from Cons.IH [OF d ch1, of ?w1] have ch2: "chained ?h2 rest" .
    from EventFilterList_call_frame [OF r, of ev ?h1 ?w1] have hr: "?h2 r = ?f" by simp
    have "rest \<noteq> [] \<longrightarrow> total (?h2 (hd rest)) = passing (?h2 r)"
    proof
      assume ne: "rest \<noteq> []"
      then obtain s tl where rest: "rest = s # tl" by (cases rest) auto
      with d have "s \<notin> set tl" by simp
      from EventFilterList_call_hd [OF this, of ev ?h1 ?w1] rest
      have "?h2 s = stage_after (?h1 s) ev" by simp
      moreover from rest r have "?h1 s = h s" by auto
      ultimately have "total (?h2 s) = total (h s) + 1" by (simp add: total_stage_after)
      with link rest hr True show "total (?h2 (hd rest)) = passing (?h2 r)"
        by (simp add: passing_stage_after)
    qed
    with ch2 have "chained ?h2 (r # rest)" by (simp add: chained_Cons)
    then show ?thesis
      by (simp only: EventFilterList_call_true [of h r ev, OF True])
  next
    case False
    have "rest \<noteq> [] \<longrightarrow> total (?h1 (hd rest)) = passing (?h1 r)"
    proof
      assume ne: "rest \<noteq> []"
      with r have "hd rest \<noteq> r" by (cases rest) auto
      with link ne False show "total (?h1 (hd rest)) = passing (?h1 r)"
        by (simp add: passing_stage_after)
    qed
    with ch1 have "chained ?h1 (r # rest)" by (simp add: chained_Cons)
    then show ?thesis
      by (simp only: EventFilterList_call_not_true [of h r ev, OF False] fst_conv snd_conv)
  qed
qed

lemma chained_nth:
  "chained h refs \<Longrightarrow> Suc i < length refs \<Longrightarrow>
     total (h (refs ! Suc i)) = passing (h (refs ! i))"
proof (induction refs arbitrary: i)
  case Nil
  then show ?case by simp
next
  case (Cons r rest)
  then show ?case
    by (cases i) (auto simp: chained_Cons hd_conv_nth)
qed

lemma chained_zero:
  "\<forall>r \<in> set refs. total (h r) = 0 \<and> passing (h r) = 0 \<Longrightarrow> chained h refs"
  by (induction refs) (auto simp: chained_Cons)

lemma submit_invariant:
  "distinct refs \<Longrightarrow> chained h refs \<Longrightarrow>
     chained (fst (submit refs evs h w)) refs
     \<and> (refs \<noteq> [] \<longrightarrow>
          total (fst (submit refs evs h w) (hd refs)) = total (h (hd refs)) + int (length evs))"
proof (induction evs arbitrary: h w)
  case Nil
  then show ?case by simp
next
  case (Cons ev evs)
  obtain res h' w' where c: "EventFilterList_call refs ev h w = (res, h', w')"
    by (cases "EventFilterList_call refs ev h w") auto
  from EventFilterList_call_chained [OF Cons.prems, of ev w] c have ch: "chained h' refs"
    by simp
  have hd: "refs \<noteq> [] \<longrightarrow> total (h' (hd refs)) = total (h (hd refs)) + 1"
  proof
    assume "refs \<noteq> []"
    then obtain r rest where refs: "refs = r # rest" by (cases refs) auto
    with Cons.prems(1) have "r \<notin> set rest" by simp
    from EventFilterList_call_hd [OF this, of ev h w] c refs
    show "total (h' (hd refs)) = total (h (hd refs)) + 1"
      by (simp add: total_stage_after)
  qed
  from Cons.IH [OF Cons.prems(1) ch, of w'] c hd show ?case
    by auto
qed

text \<open>
  Claim C4, amended. Take an \<open>EventFilterList\<close> that holds no stage twice, whose stages
  all have \<open>total = 0\<close> and \<open>passing = 0\<close>, and submit any sequence of events to it, each
  once, through the list's \<open>__call__\<close>. Afterwards the total of stage 0 is the number of
  events submitted, and for every \<open>1 \<le> i < N\<close> the total of stage \<open>i\<close> is the passing
  count of stage \<open>i - 1\<close>. This holds also when calls raise.
\<close>

theorem cutflow_totals_chain:
  assumes "distinct stages"
    and "\<forall>r \<in> set stages. total (h r) = 0 \<and> passing (h r) = 0"
  shows "(stages \<noteq> [] \<longrightarrow>
            total (fst (submit stages events h w) (stages ! 0)) = int (length events))
    \<and> (\<forall>i. 1 \<le> i \<and> i < length stages \<longrightarrow>
          total (fst (submit stages events h w) (stages ! i))
            = passing (fst (submit stages events h w) (stages ! (i - 1))))"
proof -
  let ?after = "fst (submit stages events h w)"
  from assms(2) have ch: "chained h stages" by (rule chained_zero)
  from submit_invariant [OF assms(1) ch, of events w]
  have ch': "chained ?after stages"
    and hd: "stages \<noteq> [] \<longrightarrow> total (?after (hd stages)) = total (h (hd stages)) + int (length events)"
    by simp_all
  have first: "stages \<noteq> [] \<longrightarrow> total (?after (stages ! 0)) = int (length events)"
  proof
    assume ne: "stages \<noteq> []"
    then have "hd stages = stages ! 0" by (simp add: hd_conv_nth)
    moreover from ne assms(2) have "total (h (hd stages)) = 0" by simp
    ultimately show "total (?after (stages ! 0)) = int (length events)" using hd ne by simp
  qed
  have rest: "\<forall>i. 1 \<le> i \<and> i < length stages \<longrightarrow>
      total (?after (stages ! i)) = passing (?after (stages ! (i - 1)))"
  proof (intro allI impI)
    fix i assume i: "1 \<le> i \<and> i < length stages"
    then obtain j where j: "i = Suc j" by (cases i) auto
    with i have "Suc j < length stages" by simp
    from chained_nth [OF ch' this] j
    show "total (?after (stages ! i)) = passing (?after (stages ! (i - 1)))"
      by simp
  qed
  from first rest show ?thesis by blast
qed

subsection \<open>Short circuit\<close>

lemma EventFilterList_call_prefix:
  "distinct pre \<Longrightarrow> \<forall>r \<in> set pre. returned (h r) ev = Inr True \<Longrightarrow>
     EventFilterList_call (pre @ rest) ev h w =
       EventFilterList_call rest ev
         (\<lambda>r. if r \<in> set pre then stage_after (h r) ev else h r)
         (w @ concat (map (\<lambda>r. stage_effects (h r) ev) pre))"
proof (induction pre arbitrary: h w)
  case Nil
  show ?case by simp
next
  case (Cons p ps)
  let ?h1 = "h(p := stage_after (h p) ev)"
  let ?w1 = "w @ stage_effects (h p) ev"
  from Cons.prems have p: "p \<notin> set ps" and d: "distinct ps"
    and tp: "returned (h p) ev = Inr True" by simp_all
  from Cons.prems p have t1: "\<forall>r \<in> set ps. returned (?h1 r) ev = Inr True" by auto
  have heap: "(\<lambda>r. if r \<in> set ps then stage_after (?h1 r) ev else ?h1 r)
      = (\<lambda>r. if r \<in> set (p # ps) then stage_after (h r) ev else h r)"
    using p by auto
  have log: "map (\<lambda>r. stage_effects (?h1 r) ev) ps = map (\<lambda>r. stage_effects (h r) ev) ps"
    using p by (intro map_cong) auto
  have "EventFilterList_call ((p # ps) @ rest) ev h w
      = EventFilterList_call (ps @ rest) ev ?h1 ?w1"
    by (simp only: append_Cons EventFilterList_call_true [of h p ev, OF tp])
  also have "\<dots> = EventFilterList_call rest ev
         (\<lambda>r. if r \<in> set ps then stage_after (?h1 r) ev else ?h1 r)
         (?w1 @ concat (map (\<lambda>r. stage_effects (?h1 r) ev) ps))"
    by (rule Cons.IH [OF d t1])
  also have "\<dots> = EventFilterList_call rest ev
         (\<lambda>r. if r \<in> set (p # ps) then stage_after (h r) ev else h r)
         (w @ concat (map (\<lambda>r. stage_effects (h r) ev) (p # ps)))"
    by (simp only: heap log) simp
  finally show ?case .
qed


lemma EventFilterList_call_all_true:
  assumes "distinct fs" and "\<forall>r \<in> set fs. returned (h r) ev = Inr True"
  shows "EventFilterList_call fs ev h w =
       (Inr True, (\<lambda>r. if r \<in> set fs then stage_after (h r) ev else h r),
        w @ concat (map (\<lambda>r. stage_effects (h r) ev) fs))"
  using EventFilterList_call_prefix [OF assms, of "[]" w] by simp

lemma EventFilterList_call_stops:
  assumes "distinct (pre @ [g])" and "\<forall>r \<in> set pre. returned (h r) ev = Inr True"
    and "returned (h g) ev = Inr False"
  shows "EventFilterList_call (pre @ g # rest) ev h w =
       (Inr False, (\<lambda>r. if r \<in> set (pre @ [g]) then stage_after (h r) ev else h r),
        w @ concat (map (\<lambda>r. stage_effects (h r) ev) (pre @ [g])))"
proof -
  let ?h1 = "\<lambda>r. if r \<in> set pre then stage_after (h r) ev else h r"
  let ?w1 = "w @ concat (map (\<lambda>r. stage_effects (h r) ev) pre)"
  from assms(1) have d: "distinct pre" and g: "g \<notin> set pre" by simp_all
  from g have hg: "?h1 g = h g" by simp
  with assms(3) have nt: "returned (?h1 g) ev \<noteq> Inr True" by simp
  have "EventFilterList_call (pre @ g # rest) ev h w = EventFilterList_call (g # rest) ev ?h1 ?w1"
    by (rule EventFilterList_call_prefix [OF d assms(2)])
  also have "\<dots> = ((case returned (?h1 g) ev of Inl e \<Rightarrow> Inl e | Inr b \<Rightarrow> Inr False),
        ?h1(g := stage_after (?h1 g) ev), ?w1 @ stage_effects (?h1 g) ev)"
    by (rule EventFilterList_call_not_true [of ?h1 g ev, OF nt])
  also have "\<dots> = (Inr False, (\<lambda>r. if r \<in> set (pre @ [g]) then stage_after (h r) ev else h r),
        w @ concat (map (\<lambda>r. stage_effects (h r) ev) (pre @ [g])))"
    using assms(3) g by (auto simp: fun_eq_iff)
  finally show ?thesis .
qed

text \<open>
  Claim C6, amended. For an \<open>EventFilterList\<close> that holds no stage twice: the stages are
  called in list order. If stage \<open>k\<close> is the first that returns false (all stages before
  it return true), the list returns false; the stages up to \<open>k\<close> are left as their own
  call leaves them, every other object is as before the call, so the stages after \<open>k\<close>
  have their total, passing and details unchanged, and the log has gained the calls of
  the stages \<open>0..k\<close> in that order and nothing of a later stage. If every stage returns
  true, the list returns true and every stage has been called, in order.
\<close>

theorem EventFilterList_short_circuit:
  assumes "distinct fs"
  shows
  "(k < length fs \<and> (\<forall>j<k. returned (h (fs ! j)) ev = Inr True)
      \<and> returned (h (fs ! k)) ev = Inr False
      \<longrightarrow> EventFilterList_call fs ev h w =
            (Inr False,
             (\<lambda>r. if r \<in> set (take (Suc k) fs) then stage_after (h r) ev else h r),
             w @ concat (map (\<lambda>r. stage_effects (h r) ev) (take (Suc k) fs)))
          \<and> (\<forall>j. k < j \<and> j < length fs \<longrightarrow>
                fst (snd (EventFilterList_call fs ev h w)) (fs ! j) = h (fs ! j)))
   \<and> ((\<forall>j<length fs. returned (h (fs ! j)) ev = Inr True)
      \<longrightarrow> EventFilterList_call fs ev h w =
            (Inr True, (\<lambda>r. if r \<in> set fs then stage_after (h r) ev else h r),
             w @ concat (map (\<lambda>r. stage_effects (h r) ev) fs)))"
proof (intro conjI impI)
  assume hyp: "k < length fs \<and> (\<forall>j<k. returned (h (fs ! j)) ev = Inr True)
    \<and> returned (h (fs ! k)) ev = Inr False"
  then have k: "k < length fs" by simp
  have split: "fs = take k fs @ fs ! k # drop (Suc k) fs"
    using k by (simp add: id_take_nth_drop [symmetric])
  have tk: "take (Suc k) fs = take k fs @ [fs ! k]"
    using k by (simp add: take_Suc_conv_app_nth)
  have pre: "\<forall>r \<in> set (take k fs). returned (h r) ev = Inr True"
    using hyp by (auto simp: in_set_conv_nth)
  from assms have d: "distinct (take k fs @ [fs ! k])"
    unfolding tk [symmetric] by (rule distinct_take)
  from hyp have rk: "returned (h (fs ! k)) ev = Inr False" by simp
  from EventFilterList_call_stops [OF d pre rk, of "drop (Suc k) fs" w]
  have "EventFilterList_call (take k fs @ fs ! k # drop (Suc k) fs) ev h w =
       (Inr False, (\<lambda>r. if r \<in> set (take (Suc k) fs) then stage_after (h r) ev else h r),
        w @ concat (map (\<lambda>r. stage_effects (h r) ev) (take (Suc k) fs)))"
    unfolding tk .
  with split
  show res: "EventFilterList_call fs ev h w =
            (Inr False,
             (\<lambda>r. if r \<in> set (take (Suc k) fs) then stage_after (h r) ev else h r),
             w @ concat (map (\<lambda>r. stage_effects (h r) ev) (take (Suc k) fs)))"
    by simp
  show "\<forall>j. k < j \<and> j < length fs \<longrightarrow>
                fst (snd (EventFilterList_call fs ev h w)) (fs ! j) = h (fs ! j)"
  proof (intro allI impI)
    fix j assume j: "k < j \<and> j < length fs"
    have "fs ! j \<notin> set (take (Suc k) fs)"
    proof
      assume "fs ! j \<in> set (take (Suc k) fs)"
      then obtain i where i: "i < Suc k" "i < length fs" "fs ! i = fs ! j"
        by (auto simp: in_set_conv_nth)
      with assms j have "i = j" by (simp add: nth_eq_iff_index_eq)
      with i j show False by simp
    qed
    with res show "fst (snd (EventFilterList_call fs ev h w)) (fs ! j) = h (fs ! j)"
      by simp
  qed
next
  assume "\<forall>j<length fs. returned (h (fs ! j)) ev = Inr True"
  then have "\<forall>r \<in> set fs. returned (h r) ev = Inr True"
    by (auto simp: in_set_conv_nth)
  with assms show "EventFilterList_call fs ev h w =
            (Inr True, (\<lambda>r. if r \<in> set fs then stage_after (h r) ev else h r),
             w @ concat (map (\<lambda>r. stage_effects (h r) ev) fs))"
    by (rule EventFilterList_call_all_true)
qed

subsection \<open>Passthrough, failing overrides and the object counters\<close>

lemma run_hooks_ok:
  "\<forall>x \<in> set hs. raises x = None \<Longrightarrow> run_hooks hs w = (Inr (), w @ map hook_entry hs)"
  by (induction hs arbitrary: w) (auto simp: FilterHook_call_def hook_entry_def)

lemma run_hooks_raise:
  "\<forall>x \<in> set pre. raises x = None \<Longrightarrow> raises hk = Some e \<Longrightarrow>
     run_hooks (pre @ hk # post) w = (Inl e, w @ map hook_entry (pre @ [hk]))"
  by (induction pre arbitrary: w) (auto simp: FilterHook_call_def hook_entry_def)

lemma call_hooks_run: "call_hooks f w = run_hooks (hooks_of f) w"
  by (auto simp: call_hooks_def hooks_of_def split: option.splits)

text \<open>
  Claim C8, amended. With \<open>passthrough\<close> set, a call of an \<open>EventFilter\<close> does not call
  \<open>passes\<close> (the log gains hook calls only) and adds one to total. When every hook of
  the stage returns, the call returns true, whatever \<open>passes\<close> is, and adds one to
  passing. When a hook raises, the call raises that exception after the hooks before it
  have run, and passing stays as it was.
\<close>

theorem EventFilter_passthrough:
  assumes "passthrough f"
  shows
  "((\<forall>x \<in> set (hooks_of f). raises x = None) \<longrightarrow>
      EventFilter_call f ev w =
        (Inr True, f\<lparr>total := total f + 1, passing := passing f + 1\<rparr>,
         w @ map hook_entry (hooks_of f)))
   \<and> (\<forall>pre hk post e.
        hooks_of f = pre @ hk # post \<and> (\<forall>x \<in> set pre. raises x = None) \<and> raises hk = Some e
        \<longrightarrow> EventFilter_call f ev w =
              (Inl e, f\<lparr>total := total f + 1\<rparr>, w @ map hook_entry (pre @ [hk])))"
proof (intro conjI impI allI)
  assume "\<forall>x \<in> set (hooks_of f). raises x = None"
  from run_hooks_ok [OF this, of w] assms
  show "EventFilter_call f ev w =
        (Inr True, f\<lparr>total := total f + 1, passing := passing f + 1\<rparr>,
         w @ map hook_entry (hooks_of f))"
    by (simp add: EventFilter_call_def Let_def call_hooks_run hooks_of_def)
next
  fix pre hk post e
  assume h: "hooks_of f = pre @ hk # post \<and> (\<forall>x \<in> set pre. raises x = None) \<and> raises hk = Some e"
  then have "run_hooks (hooks_of f) w = (Inl e, w @ map hook_entry (pre @ [hk]))"
    using run_hooks_raise [of pre hk e post w] by simp
  with assms
  show "EventFilter_call f ev w =
              (Inl e, f\<lparr>total := total f + 1\<rparr>, w @ map hook_entry (pre @ [hk]))"
    by (simp add: EventFilter_call_def Let_def call_hooks_run hooks_of_def)
qed

text \<open>
  Claim C10, amended. When \<open>passes\<close> raises, the call of the \<open>EventFilter\<close> raises the
  same exception and leaves the stage with total one higher, passing as before, and
  details as the raising method left it: the call itself writes no details, so for the
  inherited \<open>passes\<close>, which raises \<open>NotImplementedError\<close>, details is as before. When
  \<open>filtered\<close> raises, the call of the \<open>ObjectFilter\<close> raises the same exception and
  leaves the stage with total higher by one in \<open>count_events\<close> mode and by the size of
  the input collection otherwise, passing as before and details as the raising method
  left it; unchanged for the inherited \<open>filtered\<close>.
\<close>

theorem failed_call_counts_total:
  "(\<not> passthrough f \<and> passes f (Filter.truncate (f\<lparr>total := total f + 1\<rparr>)) ev = (Inl e, d) \<longrightarrow>
      EventFilter_call f ev w =
        (Inl e, f\<lparr>total := total f + 1, details := d\<rparr>, w @ [Passes (name f) ev]))
   \<and> (\<not> passthrough f \<and> passes f = EventFilter_passes \<longrightarrow>
      EventFilter_call f ev w =
        (Inl (NotImplementedError ''You must override this method in your derived class''),
         f\<lparr>total := total f + 1\<rparr>, w @ [Passes (name f) ev]))
   \<and> (\<not> passthrough g \<and> filtered g (Filter.truncate (count_input g c)) ev' c = (Inl e', d') \<longrightarrow>
      ObjectFilter_call g ev' c w' =
        (Inl e', g\<lparr>total := total g + (if count_events g then 1 else int (length c)),
                   details := d'\<rparr>,
         w' @ [Filtered (name g) ev' c]))
   \<and> (\<not> passthrough g \<and> filtered g = ObjectFilter_filtered \<longrightarrow>
      ObjectFilter_call g ev' c w' =
        (Inl (NotImplementedError ''You must override this method in your derived class''),
         g\<lparr>total := total g + (if count_events g then 1 else int (length c))\<rparr>,
         w' @ [Filtered (name g) ev' c]))"
proof (intro conjI impI)
  assume "\<not> passthrough f \<and> passes f (Filter.truncate (f\<lparr>total := total f + 1\<rparr>)) ev = (Inl e, d)"
  then show "EventFilter_call f ev w =
        (Inl e, f\<lparr>total := total f + 1, details := d\<rparr>, w @ [Passes (name f) ev])"
    by (simp add: EventFilter_call_def Let_def)
next
  assume "\<not> passthrough f \<and> passes f = EventFilter_passes"
  then show "EventFilter_call f ev w =
        (Inl (NotImplementedError ''You must override this method in your derived class''),
         f\<lparr>total := total f + 1\<rparr>, w @ [Passes (name f) ev])"
    by (simp add: EventFilter_call_def Let_def EventFilter_passes_def Filter.truncate_def)
next
  assume h: "\<not> passthrough g
    \<and> filtered g (Filter.truncate (count_input g c)) ev' c = (Inl e', d')"
  then show "ObjectFilter_call g ev' c w' =
        (Inl e', g\<lparr>total := total g + (if count_events g then 1 else int (length c)),
                   details := d'\<rparr>,
         w' @ [Filtered (name g) ev' c])"
    by (cases "count_events g") (simp_all add: ObjectFilter_call_def Let_def count_input_def)
next
  assume h: "\<not> passthrough g \<and> filtered g = ObjectFilter_filtered"
  then show "ObjectFilter_call g ev' c w' =
        (Inl (NotImplementedError ''You must override this method in your derived class''),
         g\<lparr>total := total g + (if count_events g then 1 else int (length c))\<rparr>,
         w' @ [Filtered (name g) ev' c])"
    by (cases "count_events g")
       (simp_all add: ObjectFilter_call_def Let_def ObjectFilter_filtered_def count_input_def
          Filter.truncate_def)
qed

text \<open>
  Claim C7. Let \<open>c'\<close> be the narrowed collection of a call of an \<open>ObjectFilter\<close> on the
  collection \<open>c\<close>: \<open>c\<close> itself with \<open>passthrough\<close> set, what \<open>filtered\<close> returns
  otherwise. The call returns \<open>c'\<close>. In \<open>count_events\<close> mode total grows by one, and
  passing by one exactly when \<open>c'\<close> is not empty; otherwise total grows by the size of
  \<open>c\<close> and passing by the size of \<open>c'\<close>. With \<open>passthrough\<close> set the log is unchanged
  (\<open>filtered\<close> is not called); without, it gains the one call of \<open>filtered\<close>.
\<close>

theorem ObjectFilter_counts:
  assumes "(passthrough g \<and> c' = c)
    \<or> (\<not> passthrough g \<and> fst (filtered g (Filter.truncate (count_input g c)) ev c) = Inr c')"
  shows "fst (ObjectFilter_call g ev c w) = Inr c'
    \<and> (count_events g \<longrightarrow>
          total (fst (snd (ObjectFilter_call g ev c w))) = total g + 1
        \<and> passing (fst (snd (ObjectFilter_call g ev c w)))
            = passing g + (if c' \<noteq> [] then 1 else 0))
    \<and> (\<not> count_events g \<longrightarrow>
          total (fst (snd (ObjectFilter_call g ev c w))) = total g + int (length c)
        \<and> passing (fst (snd (ObjectFilter_call g ev c w))) = passing g + int (length c'))
    \<and> (passthrough g \<longrightarrow> snd (snd (ObjectFilter_call g ev c w)) = w)
    \<and> (\<not> passthrough g \<longrightarrow>
          snd (snd (ObjectFilter_call g ev c w)) = w @ [Filtered (name g) ev c])"
  using assms
  by (auto simp: ObjectFilter_call_def Let_def count_input_def split: prod.splits)

subsection \<open>Concrete lists and stages\<close>

text \<open>The definitions that evaluate one call of a stage.\<close>

lemmas eval_call = EventFilter_call_def Let_def call_hooks_def FilterHook_call_def
  Filter.truncate_def EventFilter_passes_def

text \<open>
  Claim C4 as stated fails: a list that holds one accepting stage twice gives that stage
  the total 2 after one event.
\<close>

theorem cutflow_totals_chain_counterexample:
  "total ((\<lambda>r. \<lparr>name = ''trigger'', total = 0, passing = 0, details = [], hooks = None,
        passthrough = True, passes = (EventFilter_passes :: Filter \<Rightarrow> nat \<Rightarrow> (error + bool) \<times> (string, int) pydict)\<rparr>) (([0, 0] :: ref list) ! 0)) = 0
   \<and> passing ((\<lambda>r. \<lparr>name = ''trigger'', total = 0, passing = 0, details = [], hooks = None,
        passthrough = True, passes = (EventFilter_passes :: Filter \<Rightarrow> nat \<Rightarrow> (error + bool) \<times> (string, int) pydict)\<rparr>) (([0, 0] :: ref list) ! 0)) = 0
   \<and> total (fst (submit ([0, 0] :: ref list) [5]
     (\<lambda>r. \<lparr>name = ''trigger'', total = 0, passing = 0, details = [], hooks = None,
        passthrough = True, passes = (EventFilter_passes :: Filter \<Rightarrow> nat \<Rightarrow> (error + bool) \<times> (string, int) pydict)\<rparr>)
     ([] :: (nat, unit) effect list)) (([0, 0] :: ref list) ! 0)) = 2
   \<and> int (length [5 :: nat]) = 1"
  by (simp add: eval_call)

text \<open>
  The amended claim C4 at a list of two stages and three events.
\<close>

theorem cutflow_totals_chain_witness:
  "distinct ([0, 1] :: ref list)
   \<and> list_all (\<lambda>r. total (((\<lambda>r. \<lparr>name = ''pt>20'', total = 0, passing = 0, details = [], hooks = None,
        passthrough = False, passes = (\<lambda>self (e::nat). (Inr (e < 1), details self))\<rparr>)
      (0 := \<lparr>name = ''has_lepton'', total = 0, passing = 0, details = [], hooks = None,
        passthrough = False, passes = (\<lambda>self (e::nat). (Inr (e < 2), details self))\<rparr>)) r) = 0
        \<and> passing (((\<lambda>r. \<lparr>name = ''pt>20'', total = 0, passing = 0, details = [], hooks = None,
        passthrough = False, passes = (\<lambda>self (e::nat). (Inr (e < 1), details self))\<rparr>)
      (0 := \<lparr>name = ''has_lepton'', total = 0, passing = 0, details = [], hooks = None,
        passthrough = False, passes = (\<lambda>self (e::nat). (Inr (e < 2), details self))\<rparr>)) r) = 0) ([0, 1] :: ref list)
   \<and> total (fst (submit ([0, 1] :: ref list) [0, 1, 2]
     ((\<lambda>r. \<lparr>name = ''pt>20'', total = 0, passing = 0, details = [], hooks = None,
        passthrough = False, passes = (\<lambda>self (e::nat). (Inr (e < 1), details self))\<rparr>)
      (0 := \<lparr>name = ''has_lepton'', total = 0, passing = 0, details = [], hooks = None,
        passthrough = False, passes = (\<lambda>self (e::nat). (Inr (e < 2), details self))\<rparr>))
     ([] :: (nat, unit) effect list)) (([0, 1] :: ref list) ! 0)) = 3
   \<and> total (fst (submit ([0, 1] :: ref list) [0, 1, 2]
     ((\<lambda>r. \<lparr>name = ''pt>20'', total = 0, passing = 0, details = [], hooks = None,
        passthrough = False, passes = (\<lambda>self (e::nat). (Inr (e < 1), details self))\<rparr>)
      (0 := \<lparr>name = ''has_lepton'', total = 0, passing = 0, details = [], hooks = None,
        passthrough = False, passes = (\<lambda>self (e::nat). (Inr (e < 2), details self))\<rparr>))
     ([] :: (nat, unit) effect list)) (([0, 1] :: ref list) ! 1))
     = passing (fst (submit ([0, 1] :: ref list) [0, 1, 2]
     ((\<lambda>r. \<lparr>name = ''pt>20'', total = 0, passing = 0, details = [], hooks = None,
        passthrough = False, passes = (\<lambda>self (e::nat). (Inr (e < 1), details self))\<rparr>)
      (0 := \<lparr>name = ''has_lepton'', total = 0, passing = 0, details = [], hooks = None,
        passthrough = False, passes = (\<lambda>self (e::nat). (Inr (e < 2), details self))\<rparr>))
     ([] :: (nat, unit) effect list)) (([0, 1] :: ref list) ! 0))"
proof -
  have d: "distinct ([0, 1] :: ref list)" by simp
  have z: "\<forall>r \<in> set ([0, 1] :: ref list). total (((\<lambda>r. \<lparr>name = ''pt>20'', total = 0, passing = 0, details = [], hooks = None,
        passthrough = False, passes = (\<lambda>self (e::nat). (Inr (e < 1), details self))\<rparr>)
      (0 := \<lparr>name = ''has_lepton'', total = 0, passing = 0, details = [], hooks = None,
        passthrough = False, passes = (\<lambda>self (e::nat). (Inr (e < 2), details self))\<rparr>)) r) = 0
        \<and> passing (((\<lambda>r. \<lparr>name = ''pt>20'', total = 0, passing = 0, details = [], hooks = None,
        passthrough = False, passes = (\<lambda>self (e::nat). (Inr (e < 1), details self))\<rparr>)
      (0 := \<lparr>name = ''has_lepton'', total = 0, passing = 0, details = [], hooks = None,
        passthrough = False, passes = (\<lambda>self (e::nat). (Inr (e < 2), details self))\<rparr>)) r) = 0"
    by simp
  have z': "list_all (\<lambda>r. total (((\<lambda>r. \<lparr>name = ''pt>20'', total = 0, passing = 0, details = [], hooks = None,
        passthrough = False, passes = (\<lambda>self (e::nat). (Inr (e < 1), details self))\<rparr>)
      (0 := \<lparr>name = ''has_lepton'', total = 0, passing = 0, details = [], hooks = None,
        passthrough = False, passes = (\<lambda>self (e::nat). (Inr (e < 2), details self))\<rparr>)) r) = 0
        \<and> passing (((\<lambda>r. \<lparr>name = ''pt>20'', total = 0, passing = 0, details = [], hooks = None,
        passthrough = False, passes = (\<lambda>self (e::nat). (Inr (e < 1), details self))\<rparr>)
      (0 := \<lparr>name = ''has_lepton'', total = 0, passing = 0, details = [], hooks = None,
        passthrough = False, passes = (\<lambda>self (e::nat). (Inr (e < 2), details self))\<rparr>)) r) = 0) ([0, 1] :: ref list)"
    by simp
  note t = cutflow_totals_chain [OF d z, of "[0, 1, 2]" "([] :: (nat, unit) effect list)"]
  have a0: "total (fst (submit ([0, 1] :: ref list) [0, 1, 2]
     ((\<lambda>r. \<lparr>name = ''pt>20'', total = 0, passing = 0, details = [], hooks = None,
        passthrough = False, passes = (\<lambda>self (e::nat). (Inr (e < 1), details self))\<rparr>)
      (0 := \<lparr>name = ''has_lepton'', total = 0, passing = 0, details = [], hooks = None,
        passthrough = False, passes = (\<lambda>self (e::nat). (Inr (e < 2), details self))\<rparr>))
     ([] :: (nat, unit) effect list)) (([0, 1] :: ref list) ! 0)) = int (length [0 :: nat, 1, 2])"
    by (rule conjunct1 [OF t, THEN mp]) simp
  have a: "total (fst (submit ([0, 1] :: ref list) [0, 1, 2]
     ((\<lambda>r. \<lparr>name = ''pt>20'', total = 0, passing = 0, details = [], hooks = None,
        passthrough = False, passes = (\<lambda>self (e::nat). (Inr (e < 1), details self))\<rparr>)
      (0 := \<lparr>name = ''has_lepton'', total = 0, passing = 0, details = [], hooks = None,
        passthrough = False, passes = (\<lambda>self (e::nat). (Inr (e < 2), details self))\<rparr>))
     ([] :: (nat, unit) effect list)) (([0, 1] :: ref list) ! 0)) = 3"
    unfolding a0 by simp
  have b: "total (fst (submit ([0, 1] :: ref list) [0, 1, 2]
     ((\<lambda>r. \<lparr>name = ''pt>20'', total = 0, passing = 0, details = [], hooks = None,
        passthrough = False, passes = (\<lambda>self (e::nat). (Inr (e < 1), details self))\<rparr>)
      (0 := \<lparr>name = ''has_lepton'', total = 0, passing = 0, details = [], hooks = None,
        passthrough = False, passes = (\<lambda>self (e::nat). (Inr (e < 2), details self))\<rparr>))
     ([] :: (nat, unit) effect list)) (([0, 1] :: ref list) ! 1))
     = passing (fst (submit ([0, 1] :: ref list) [0, 1, 2]
     ((\<lambda>r. \<lparr>name = ''pt>20'', total = 0, passing = 0, details = [], hooks = None,
        passthrough = False, passes = (\<lambda>self (e::nat). (Inr (e < 1), details self))\<rparr>)
      (0 := \<lparr>name = ''has_lepton'', total = 0, passing = 0, details = [], hooks = None,
        passthrough = False, passes = (\<lambda>self (e::nat). (Inr (e < 2), details self))\<rparr>))
     ([] :: (nat, unit) effect list)) (([0, 1] :: ref list) ! (1 - 1)))"
    by (rule conjunct2 [OF t, rule_format]) simp
  have b': "total (fst (submit ([0, 1] :: ref list) [0, 1, 2]
     ((\<lambda>r. \<lparr>name = ''pt>20'', total = 0, passing = 0, details = [], hooks = None,
        passthrough = False, passes = (\<lambda>self (e::nat). (Inr (e < 1), details self))\<rparr>)
      (0 := \<lparr>name = ''has_lepton'', total = 0, passing = 0, details = [], hooks = None,
        passthrough = False, passes = (\<lambda>self (e::nat). (Inr (e < 2), details self))\<rparr>))
     ([] :: (nat, unit) effect list)) (([0, 1] :: ref list) ! 1))
     = passing (fst (submit ([0, 1] :: ref list) [0, 1, 2]
     ((\<lambda>r. \<lparr>name = ''pt>20'', total = 0, passing = 0, details = [], hooks = None,
        passthrough = False, passes = (\<lambda>self (e::nat). (Inr (e < 1), details self))\<rparr>)
      (0 := \<lparr>name = ''has_lepton'', total = 0, passing = 0, details = [], hooks = None,
        passthrough = False, passes = (\<lambda>self (e::nat). (Inr (e < 2), details self))\<rparr>))
     ([] :: (nat, unit) effect list)) (([0, 1] :: ref list) ! 0))"
    using b by (simp only: diff_self_eq_0)
  from d z' a b' show ?thesis by (intro conjI)
qed

text \<open>
  Claim C6 as stated fails: in a list that holds an accepting stage at the positions 0
  and 2 and a rejecting stage at position 1, the call that stage 1 rejects has raised
  the total of stage 2.
\<close>

theorem EventFilterList_short_circuit_counterexample:
  "returned (((\<lambda>r. \<lparr>name = ''trigger'', total = 0, passing = 0, details = [], hooks = None,
        passthrough = True, passes = (EventFilter_passes :: Filter \<Rightarrow> nat \<Rightarrow> (error + bool) \<times> (string, int) pydict)\<rparr>)
      (1 := \<lparr>name = ''veto'', total = 0, passing = 0, details = [], hooks = None,
        passthrough = False, passes = (\<lambda>self (e::nat). (Inr (False), details self))\<rparr>)) (([0, 1, 0] :: ref list) ! 0)) 0 = Inr True
   \<and> returned (((\<lambda>r. \<lparr>name = ''trigger'', total = 0, passing = 0, details = [], hooks = None,
        passthrough = True, passes = (EventFilter_passes :: Filter \<Rightarrow> nat \<Rightarrow> (error + bool) \<times> (string, int) pydict)\<rparr>)
      (1 := \<lparr>name = ''veto'', total = 0, passing = 0, details = [], hooks = None,
        passthrough = False, passes = (\<lambda>self (e::nat). (Inr (False), details self))\<rparr>)) (([0, 1, 0] :: ref list) ! 1)) 0 = Inr False
   \<and> total (((\<lambda>r. \<lparr>name = ''trigger'', total = 0, passing = 0, details = [], hooks = None,
        passthrough = True, passes = (EventFilter_passes :: Filter \<Rightarrow> nat \<Rightarrow> (error + bool) \<times> (string, int) pydict)\<rparr>)
      (1 := \<lparr>name = ''veto'', total = 0, passing = 0, details = [], hooks = None,
        passthrough = False, passes = (\<lambda>self (e::nat). (Inr (False), details self))\<rparr>)) (([0, 1, 0] :: ref list) ! 2)) = 0
   \<and> total (fst (snd (EventFilterList_call ([0, 1, 0] :: ref list) 0
     ((\<lambda>r. \<lparr>name = ''trigger'', total = 0, passing = 0, details = [], hooks = None,
        passthrough = True, passes = (EventFilter_passes :: Filter \<Rightarrow> nat \<Rightarrow> (error + bool) \<times> (string, int) pydict)\<rparr>)
      (1 := \<lparr>name = ''veto'', total = 0, passing = 0, details = [], hooks = None,
        passthrough = False, passes = (\<lambda>self (e::nat). (Inr (False), details self))\<rparr>))
     ([] :: (nat, unit) effect list))) (([0, 1, 0] :: ref list) ! 2)) = 1"
  by (simp add: returned_def eval_call)

text \<open>
  The amended claim C6 at a list of three stages whose second stage rejects the event.
\<close>

theorem EventFilterList_short_circuit_witness:
  "distinct ([0, 1, 2] :: ref list)
   \<and> returned (((\<lambda>r. \<lparr>name = ''has_lepton'', total = 7, passing = 4, details = [], hooks = None,
        passthrough = False, passes = (\<lambda>self (e::nat). (Inr (e < 2), details self))\<rparr>)
      (0 := \<lparr>name = ''trigger'', total = 5, passing = 5, details = [], hooks = Some [\<lparr>target = ''log'', args = [], raises = None\<rparr>],
        passthrough = True, passes = (EventFilter_passes :: Filter \<Rightarrow> nat \<Rightarrow> (error + bool) \<times> (string, int) pydict)\<rparr>,
       1 := \<lparr>name = ''veto'', total = 5, passing = 2, details = [], hooks = None,
        passthrough = False, passes = (\<lambda>self (e::nat). (Inr (False), details self))\<rparr>)) (([0, 1, 2] :: ref list) ! 0)) 0 = Inr True
   \<and> returned (((\<lambda>r. \<lparr>name = ''has_lepton'', total = 7, passing = 4, details = [], hooks = None,
        passthrough = False, passes = (\<lambda>self (e::nat). (Inr (e < 2), details self))\<rparr>)
      (0 := \<lparr>name = ''trigger'', total = 5, passing = 5, details = [], hooks = Some [\<lparr>target = ''log'', args = [], raises = None\<rparr>],
        passthrough = True, passes = (EventFilter_passes :: Filter \<Rightarrow> nat \<Rightarrow> (error + bool) \<times> (string, int) pydict)\<rparr>,
       1 := \<lparr>name = ''veto'', total = 5, passing = 2, details = [], hooks = None,
        passthrough = False, passes = (\<lambda>self (e::nat). (Inr (False), details self))\<rparr>)) (([0, 1, 2] :: ref list) ! 1)) 0 = Inr False
   \<and> fst (EventFilterList_call ([0, 1, 2] :: ref list) 0
     ((\<lambda>r. \<lparr>name = ''has_lepton'', total = 7, passing = 4, details = [], hooks = None,
        passthrough = False, passes = (\<lambda>self (e::nat). (Inr (e < 2), details self))\<rparr>)
      (0 := \<lparr>name = ''trigger'', total = 5, passing = 5, details = [], hooks = Some [\<lparr>target = ''log'', args = [], raises = None\<rparr>],
        passthrough = True, passes = (EventFilter_passes :: Filter \<Rightarrow> nat \<Rightarrow> (error + bool) \<times> (string, int) pydict)\<rparr>,
       1 := \<lparr>name = ''veto'', total = 5, passing = 2, details = [], hooks = None,
        passthrough = False, passes = (\<lambda>self (e::nat). (Inr (False), details self))\<rparr>))
     ([] :: (nat, unit) effect list)) = Inr False
   \<and> total (fst (snd (EventFilterList_call ([0, 1, 2] :: ref list) 0
     ((\<lambda>r. \<lparr>name = ''has_lepton'', total = 7, passing = 4, details = [], hooks = None,
        passthrough = False, passes = (\<lambda>self (e::nat). (Inr (e < 2), details self))\<rparr>)
      (0 := \<lparr>name = ''trigger'', total = 5, passing = 5, details = [], hooks = Some [\<lparr>target = ''log'', args = [], raises = None\<rparr>],
        passthrough = True, passes = (EventFilter_passes :: Filter \<Rightarrow> nat \<Rightarrow> (error + bool) \<times> (string, int) pydict)\<rparr>,
       1 := \<lparr>name = ''veto'', total = 5, passing = 2, details = [], hooks = None,
        passthrough = False, passes = (\<lambda>self (e::nat). (Inr (False), details self))\<rparr>))
     ([] :: (nat, unit) effect list))) (([0, 1, 2] :: ref list) ! 2)) = 7
   \<and> passing (fst (snd (EventFilterList_call ([0, 1, 2] :: ref list) 0
     ((\<lambda>r. \<lparr>name = ''has_lepton'', total = 7, passing = 4, details = [], hooks = None,
        passthrough = False, passes = (\<lambda>self (e::nat). (Inr (e < 2), details self))\<rparr>)
      (0 := \<lparr>name = ''trigger'', total = 5, passing = 5, details = [], hooks = Some [\<lparr>target = ''log'', args = [], raises = None\<rparr>],
        passthrough = True, passes = (EventFilter_passes :: Filter \<Rightarrow> nat \<Rightarrow> (error + bool) \<times> (string, int) pydict)\<rparr>,
       1 := \<lparr>name = ''veto'', total = 5, passing = 2, details = [], hooks = None,
        passthrough = False, passes = (\<lambda>self (e::nat). (Inr (False), details self))\<rparr>))
     ([] :: (nat, unit) effect list))) (([0, 1, 2] :: ref list) ! 2)) = 4
   \<and> snd (snd (EventFilterList_call ([0, 1, 2] :: ref list) 0
     ((\<lambda>r. \<lparr>name = ''has_lepton'', total = 7, passing = 4, details = [], hooks = None,
        passthrough = False, passes = (\<lambda>self (e::nat). (Inr (e < 2), details self))\<rparr>)
      (0 := \<lparr>name = ''trigger'', total = 5, passing = 5, details = [], hooks = Some [\<lparr>target = ''log'', args = [], raises = None\<rparr>],
        passthrough = True, passes = (EventFilter_passes :: Filter \<Rightarrow> nat \<Rightarrow> (error + bool) \<times> (string, int) pydict)\<rparr>,
       1 := \<lparr>name = ''veto'', total = 5, passing = 2, details = [], hooks = None,
        passthrough = False, passes = (\<lambda>self (e::nat). (Inr (False), details self))\<rparr>))
     ([] :: (nat, unit) effect list))) = [Hook ''log'' [], Passes ''veto'' 0]"
proof -
  have d: "distinct ([0, 1, 2] :: ref list)" by simp
  have r0: "returned (((\<lambda>r. \<lparr>name = ''has_lepton'', total = 7, passing = 4, details = [], hooks = None,
        passthrough = False, passes = (\<lambda>self (e::nat). (Inr (e < 2), details self))\<rparr>)
      (0 := \<lparr>name = ''trigger'', total = 5, passing = 5, details = [], hooks = Some [\<lparr>target = ''log'', args = [], raises = None\<rparr>],
        passthrough = True, passes = (EventFilter_passes :: Filter \<Rightarrow> nat \<Rightarrow> (error + bool) \<times> (string, int) pydict)\<rparr>,
       1 := \<lparr>name = ''veto'', total = 5, passing = 2, details = [], hooks = None,
        passthrough = False, passes = (\<lambda>self (e::nat). (Inr (False), details self))\<rparr>)) (([0, 1, 2] :: ref list) ! 0)) 0 = Inr True"
    by (simp add: returned_def eval_call)
  have r1: "returned (((\<lambda>r. \<lparr>name = ''has_lepton'', total = 7, passing = 4, details = [], hooks = None,
        passthrough = False, passes = (\<lambda>self (e::nat). (Inr (e < 2), details self))\<rparr>)
      (0 := \<lparr>name = ''trigger'', total = 5, passing = 5, details = [], hooks = Some [\<lparr>target = ''log'', args = [], raises = None\<rparr>],
        passthrough = True, passes = (EventFilter_passes :: Filter \<Rightarrow> nat \<Rightarrow> (error + bool) \<times> (string, int) pydict)\<rparr>,
       1 := \<lparr>name = ''veto'', total = 5, passing = 2, details = [], hooks = None,
        passthrough = False, passes = (\<lambda>self (e::nat). (Inr (False), details self))\<rparr>)) (([0, 1, 2] :: ref list) ! 1)) 0 = Inr False"
    by (simp add: returned_def eval_call)
  from r0 r1 have h: "1 < length ([0, 1, 2] :: ref list)
    \<and> (\<forall>j<1. returned (((\<lambda>r. \<lparr>name = ''has_lepton'', total = 7, passing = 4, details = [], hooks = None,
        passthrough = False, passes = (\<lambda>self (e::nat). (Inr (e < 2), details self))\<rparr>)
      (0 := \<lparr>name = ''trigger'', total = 5, passing = 5, details = [], hooks = Some [\<lparr>target = ''log'', args = [], raises = None\<rparr>],
        passthrough = True, passes = (EventFilter_passes :: Filter \<Rightarrow> nat \<Rightarrow> (error + bool) \<times> (string, int) pydict)\<rparr>,
       1 := \<lparr>name = ''veto'', total = 5, passing = 2, details = [], hooks = None,
        passthrough = False, passes = (\<lambda>self (e::nat). (Inr (False), details self))\<rparr>)) (([0, 1, 2] :: ref list) ! j)) 0 = Inr True)
    \<and> returned (((\<lambda>r. \<lparr>name = ''has_lepton'', total = 7, passing = 4, details = [], hooks = None,
        passthrough = False, passes = (\<lambda>self (e::nat). (Inr (e < 2), details self))\<rparr>)
      (0 := \<lparr>name = ''trigger'', total = 5, passing = 5, details = [], hooks = Some [\<lparr>target = ''log'', args = [], raises = None\<rparr>],
        passthrough = True, passes = (EventFilter_passes :: Filter \<Rightarrow> nat \<Rightarrow> (error + bool) \<times> (string, int) pydict)\<rparr>,
       1 := \<lparr>name = ''veto'', total = 5, passing = 2, details = [], hooks = None,
        passthrough = False, passes = (\<lambda>self (e::nat). (Inr (False), details self))\<rparr>)) (([0, 1, 2] :: ref list) ! 1)) 0 = Inr False"
    by simp
  note t = conjunct1 [OF EventFilterList_short_circuit [OF d, of 1 _ 0 "([] :: (nat, unit) effect list)"], THEN mp, OF h]
  note res = conjunct1 [OF t]
  have a: "fst (EventFilterList_call ([0, 1, 2] :: ref list) 0
     ((\<lambda>r. \<lparr>name = ''has_lepton'', total = 7, passing = 4, details = [], hooks = None,
        passthrough = False, passes = (\<lambda>self (e::nat). (Inr (e < 2), details self))\<rparr>)
      (0 := \<lparr>name = ''trigger'', total = 5, passing = 5, details = [], hooks = Some [\<lparr>target = ''log'', args = [], raises = None\<rparr>],
        passthrough = True, passes = (EventFilter_passes :: Filter \<Rightarrow> nat \<Rightarrow> (error + bool) \<times> (string, int) pydict)\<rparr>,
       1 := \<lparr>name = ''veto'', total = 5, passing = 2, details = [], hooks = None,
        passthrough = False, passes = (\<lambda>self (e::nat). (Inr (False), details self))\<rparr>))
     ([] :: (nat, unit) effect list)) = Inr False"
    unfolding res by (simp only: fst_conv)
  have b: "fst (snd (EventFilterList_call ([0, 1, 2] :: ref list) 0
     ((\<lambda>r. \<lparr>name = ''has_lepton'', total = 7, passing = 4, details = [], hooks = None,
        passthrough = False, passes = (\<lambda>self (e::nat). (Inr (e < 2), details self))\<rparr>)
      (0 := \<lparr>name = ''trigger'', total = 5, passing = 5, details = [], hooks = Some [\<lparr>target = ''log'', args = [], raises = None\<rparr>],
        passthrough = True, passes = (EventFilter_passes :: Filter \<Rightarrow> nat \<Rightarrow> (error + bool) \<times> (string, int) pydict)\<rparr>,
       1 := \<lparr>name = ''veto'', total = 5, passing = 2, details = [], hooks = None,
        passthrough = False, passes = (\<lambda>self (e::nat). (Inr (False), details self))\<rparr>))
     ([] :: (nat, unit) effect list))) (([0, 1, 2] :: ref list) ! 2)
      = ((\<lambda>r. \<lparr>name = ''has_lepton'', total = 7, passing = 4, details = [], hooks = None,
        passthrough = False, passes = (\<lambda>self (e::nat). (Inr (e < 2), details self))\<rparr>)
      (0 := \<lparr>name = ''trigger'', total = 5, passing = 5, details = [], hooks = Some [\<lparr>target = ''log'', args = [], raises = None\<rparr>],
        passthrough = True, passes = (EventFilter_passes :: Filter \<Rightarrow> nat \<Rightarrow> (error + bool) \<times> (string, int) pydict)\<rparr>,
       1 := \<lparr>name = ''veto'', total = 5, passing = 2, details = [], hooks = None,
        passthrough = False, passes = (\<lambda>self (e::nat). (Inr (False), details self))\<rparr>)) (([0, 1, 2] :: ref list) ! 2)"
    by (rule conjunct2 [OF t, rule_format]) simp
  have b1: "total (fst (snd (EventFilterList_call ([0, 1, 2] :: ref list) 0
     ((\<lambda>r. \<lparr>name = ''has_lepton'', total = 7, passing = 4, details = [], hooks = None,
        passthrough = False, passes = (\<lambda>self (e::nat). (Inr (e < 2), details self))\<rparr>)
      (0 := \<lparr>name = ''trigger'', total = 5, passing = 5, details = [], hooks = Some [\<lparr>target = ''log'', args = [], raises = None\<rparr>],
        passthrough = True, passes = (EventFilter_passes :: Filter \<Rightarrow> nat \<Rightarrow> (error + bool) \<times> (string, int) pydict)\<rparr>,
       1 := \<lparr>name = ''veto'', total = 5, passing = 2, details = [], hooks = None,
        passthrough = False, passes = (\<lambda>self (e::nat). (Inr (False), details self))\<rparr>))
     ([] :: (nat, unit) effect list))) (([0, 1, 2] :: ref list) ! 2)) = 7"
    unfolding b by simp
  have b2: "passing (fst (snd (EventFilterList_call ([0, 1, 2] :: ref list) 0
     ((\<lambda>r. \<lparr>name = ''has_lepton'', total = 7, passing = 4, details = [], hooks = None,
        passthrough = False, passes = (\<lambda>self (e::nat). (Inr (e < 2), details self))\<rparr>)
      (0 := \<lparr>name = ''trigger'', total = 5, passing = 5, details = [], hooks = Some [\<lparr>target = ''log'', args = [], raises = None\<rparr>],
        passthrough = True, passes = (EventFilter_passes :: Filter \<Rightarrow> nat \<Rightarrow> (error + bool) \<times> (string, int) pydict)\<rparr>,
       1 := \<lparr>name = ''veto'', total = 5, passing = 2, details = [], hooks = None,
        passthrough = False, passes = (\<lambda>self (e::nat). (Inr (False), details self))\<rparr>))
     ([] :: (nat, unit) effect list))) (([0, 1, 2] :: ref list) ! 2)) = 4"
    unfolding b by simp
  have c: "snd (snd (EventFilterList_call ([0, 1, 2] :: ref list) 0
     ((\<lambda>r. \<lparr>name = ''has_lepton'', total = 7, passing = 4, details = [], hooks = None,
        passthrough = False, passes = (\<lambda>self (e::nat). (Inr (e < 2), details self))\<rparr>)
      (0 := \<lparr>name = ''trigger'', total = 5, passing = 5, details = [], hooks = Some [\<lparr>target = ''log'', args = [], raises = None\<rparr>],
        passthrough = True, passes = (EventFilter_passes :: Filter \<Rightarrow> nat \<Rightarrow> (error + bool) \<times> (string, int) pydict)\<rparr>,
       1 := \<lparr>name = ''veto'', total = 5, passing = 2, details = [], hooks = None,
        passthrough = False, passes = (\<lambda>self (e::nat). (Inr (False), details self))\<rparr>))
     ([] :: (nat, unit) effect list))) = [Hook ''log'' [], Passes ''veto'' 0]"
    unfolding res by (simp add: stage_effects_def eval_call)
  from d r0 r1 a b1 b2 c show ?thesis by (intro conjI)
qed

subsection \<open>The counter invariant\<close>

lemma EventFilter_call_counted:
  "counted f \<Longrightarrow> counted (fst (snd (EventFilter_call f ev w)))"
  by (auto simp: counted_def EventFilter_call_def Let_def split: sum.splits prod.splits)

lemma EventFilter_calls_counted:
  "counted f \<Longrightarrow> counted (fst (EventFilter_calls f evs w))"
proof (induction evs arbitrary: f w)
  case Nil
  then show ?case by simp
next
  case (Cons ev evs)
  obtain r f' w' where c: "EventFilter_call f ev w = (r, f', w')"
    by (cases "EventFilter_call f ev w") auto
  from EventFilter_call_counted [OF Cons.prems, of ev w] c have "counted f'" by simp
  from Cons.IH [OF this, of w'] c show ?case by simp
qed

lemma ObjectFilter_call_filtered:
  "filtered (fst (snd (ObjectFilter_call g ev c w))) = filtered g"
  by (auto simp: ObjectFilter_call_def Let_def count_input_def split: sum.splits prod.splits)

lemma ObjectFilter_call_counted:
  assumes "counted g"
    and "\<forall>self ev c c' d. filtered g self ev c = (Inr c', d) \<longrightarrow> length c' \<le> length c"
  shows "counted (fst (snd (ObjectFilter_call g ev c w)))"
proof -
  let ?g1 = "count_input g c"
  obtain r d where f: "filtered g (Filter.truncate ?g1) ev c = (r, d)"
    by (cases "filtered g (Filter.truncate ?g1) ev c") auto
  show ?thesis
  proof (cases r)
    case (Inl e)
    with assms(1) f show ?thesis
      by (auto simp: counted_def ObjectFilter_call_def Let_def count_input_def)
  next
    case (Inr c')
    with assms(2) f have "length c' \<le> length c" by blast
    with Inr assms(1) f show ?thesis
      by (auto simp: counted_def ObjectFilter_call_def Let_def count_input_def)
  qed
qed

lemma ObjectFilter_calls_counted:
  "counted g \<Longrightarrow>
   \<forall>self ev c c' d. filtered g self ev c = (Inr c', d) \<longrightarrow> length c' \<le> length c \<Longrightarrow>
     counted (fst (ObjectFilter_calls g calls w))"
proof (induction calls arbitrary: g w)
  case Nil
  then show ?case by simp
next
  case (Cons call calls)
  obtain ev c where call: "call = (ev, c)" by (cases call)
  obtain r g' w' where c: "ObjectFilter_call g ev c w = (r, g', w')"
    by (cases "ObjectFilter_call g ev c w") auto
  from ObjectFilter_call_counted [OF Cons.prems, of ev c w] c have 1: "counted g'" by simp
  from ObjectFilter_call_filtered [of g ev c w] c have "filtered g' = filtered g" by simp
  with Cons.prems(2)
  have 2: "\<forall>self ev c c' d. filtered g' self ev c = (Inr c', d) \<longrightarrow> length c' \<le> length c"
    by simp
  from Cons.IH [OF 1 2, of w'] c call show ?case by simp
qed

text \<open>
  Claim C5. A stage that starts with \<open>total = 0\<close> and \<open>passing = 0\<close> satisfies
  \<open>0 \<le> passing \<le> total\<close> after any sequence of calls: an \<open>EventFilter\<close> always, an
  \<open>ObjectFilter\<close> when its \<open>filtered\<close> never returns a collection larger than the one
  it was given.
\<close>

theorem passing_within_total:
  "(total f = 0 \<and> passing f = 0 \<longrightarrow> counted (fst (EventFilter_calls f evs w)))
   \<and> (total g = 0 \<and> passing g = 0
        \<and> (\<forall>self ev c c' d. filtered g self ev c = (Inr c', d) \<longrightarrow> length c' \<le> length c)
      \<longrightarrow> counted (fst (ObjectFilter_calls g calls w')))"
proof (intro conjI impI)
  assume "total f = 0 \<and> passing f = 0"
  then have "counted f" by (simp add: counted_def)
  then show "counted (fst (EventFilter_calls f evs w))" by (rule EventFilter_calls_counted)
next
  assume h: "total g = 0 \<and> passing g = 0
        \<and> (\<forall>self ev c c' d. filtered g self ev c = (Inr c', d) \<longrightarrow> length c' \<le> length c)"
  then have "counted g" by (simp add: counted_def)
  with h show "counted (fst (ObjectFilter_calls g calls w'))"
    by (intro ObjectFilter_calls_counted) blast+
qed

text \<open>
  Claim C5 at an event stage called three times and an object stage called twice.
\<close>

theorem passing_within_total_witness:
  "(total \<lparr>name = ''has_lepton'', total = 0, passing = 0, details = [], hooks = None,
        passthrough = False, passes = (\<lambda>self (e::nat). (Inr (e < 2), details self))\<rparr> = 0
    \<and> passing \<lparr>name = ''has_lepton'', total = 0, passing = 0, details = [], hooks = None,
        passthrough = False, passes = (\<lambda>self (e::nat). (Inr (e < 2), details self))\<rparr> = 0)
   \<and> counted (fst (EventFilter_calls
        \<lparr>name = ''has_lepton'', total = 0, passing = 0, details = [], hooks = None,
        passthrough = False, passes = (\<lambda>self (e::nat). (Inr (e < 2), details self))\<rparr>
        [0, 1, 2] ([] :: (nat, unit) effect list)))
   \<and> (total \<lparr>name = ''below'', total = 0, passing = 0, details = [], hooks = None,
        passthrough = False, count_events = False,
        filtered = (\<lambda>self (ev::nat) (c::nat list). (Inr (filter (\<lambda>x. x < ev) c), details self))\<rparr> = 0
    \<and> passing \<lparr>name = ''below'', total = 0, passing = 0, details = [], hooks = None,
        passthrough = False, count_events = False,
        filtered = (\<lambda>self (ev::nat) (c::nat list). (Inr (filter (\<lambda>x. x < ev) c), details self))\<rparr> = 0)
   \<and> counted (fst (ObjectFilter_calls
        \<lparr>name = ''below'', total = 0, passing = 0, details = [], hooks = None,
        passthrough = False, count_events = False,
        filtered = (\<lambda>self (ev::nat) (c::nat list). (Inr (filter (\<lambda>x. x < ev) c), details self))\<rparr>
        [(3, [1, 5, 2]), (0, [4])] ([] :: (nat, nat) effect list)))"
proof -
  have h1: "total \<lparr>name = ''has_lepton'', total = 0, passing = 0, details = [], hooks = None,
        passthrough = False, passes = (\<lambda>self (e::nat). (Inr (e < 2), details self))\<rparr> = 0
    \<and> passing \<lparr>name = ''has_lepton'', total = 0, passing = 0, details = [], hooks = None,
        passthrough = False, passes = (\<lambda>self (e::nat). (Inr (e < 2), details self))\<rparr> = 0"
    by simp
  have h2: "total \<lparr>name = ''below'', total = 0, passing = 0, details = [], hooks = None,
        passthrough = False, count_events = False,
        filtered = (\<lambda>self (ev::nat) (c::nat list). (Inr (filter (\<lambda>x. x < ev) c), details self))\<rparr> = 0
    \<and> passing \<lparr>name = ''below'', total = 0, passing = 0, details = [], hooks = None,
        passthrough = False, count_events = False,
        filtered = (\<lambda>self (ev::nat) (c::nat list). (Inr (filter (\<lambda>x. x < ev) c), details self))\<rparr> = 0
    \<and> (\<forall>self ev c c' d. filtered \<lparr>name = ''below'', total = 0, passing = 0, details = [], hooks = None,
        passthrough = False, count_events = False,
        filtered = (\<lambda>self (ev::nat) (c::nat list). (Inr (filter (\<lambda>x. x < ev) c), details self))\<rparr> self ev c = (Inr c', d)
          \<longrightarrow> length c' \<le> length c)"
    by auto
  note t = passing_within_total
    [of "\<lparr>name = ''has_lepton'', total = 0, passing = 0, details = [], hooks = None,
        passthrough = False, passes = (\<lambda>self (e::nat). (Inr (e < 2), details self))\<rparr>"
        "[0, 1, 2]" "([] :: (nat, unit) effect list)"
        "\<lparr>name = ''below'', total = 0, passing = 0, details = [], hooks = None,
        passthrough = False, count_events = False,
        filtered = (\<lambda>self (ev::nat) (c::nat list). (Inr (filter (\<lambda>x. x < ev) c), details self))\<rparr>"
        "[(3, [1, 5, 2]), (0, [4])]" "([] :: (nat, nat) effect list)"]
  have a: "counted (fst (EventFilter_calls
        \<lparr>name = ''has_lepton'', total = 0, passing = 0, details = [], hooks = None,
        passthrough = False, passes = (\<lambda>self (e::nat). (Inr (e < 2), details self))\<rparr>
        [0, 1, 2] ([] :: (nat, unit) effect list)))"
    by (rule conjunct1 [OF t, THEN mp, OF h1])
  have b: "counted (fst (ObjectFilter_calls
        \<lparr>name = ''below'', total = 0, passing = 0, details = [], hooks = None,
        passthrough = False, count_events = False,
        filtered = (\<lambda>self (ev::nat) (c::nat list). (Inr (filter (\<lambda>x. x < ev) c), details self))\<rparr>
        [(3, [1, 5, 2]), (0, [4])] ([] :: (nat, nat) effect list)))"
    by (rule conjunct2 [OF t, THEN mp, OF h2])
  from h1 h2 a b show ?thesis by (intro conjI) simp_all
qed

text \<open>
  Claim C7 at a narrowing stage that counts objects and at a passthrough stage that
  counts events.
\<close>

theorem ObjectFilter_counts_witness:
  "((passthrough \<lparr>name = ''below'', total = 4, passing = 1, details = [], hooks = None,
        passthrough = False, count_events = False,
        filtered = (\<lambda>self (ev::nat) (c::nat list). (Inr (filter (\<lambda>x. x < ev) c), details self))\<rparr> \<and> [1, 2] = [1, 5, (2::nat)])
    \<or> (\<not> passthrough \<lparr>name = ''below'', total = 4, passing = 1, details = [], hooks = None,
        passthrough = False, count_events = False,
        filtered = (\<lambda>self (ev::nat) (c::nat list). (Inr (filter (\<lambda>x. x < ev) c), details self))\<rparr>
      \<and> fst (filtered \<lparr>name = ''below'', total = 4, passing = 1, details = [], hooks = None,
        passthrough = False, count_events = False,
        filtered = (\<lambda>self (ev::nat) (c::nat list). (Inr (filter (\<lambda>x. x < ev) c), details self))\<rparr>
           (Filter.truncate (count_input \<lparr>name = ''below'', total = 4, passing = 1, details = [], hooks = None,
        passthrough = False, count_events = False,
        filtered = (\<lambda>self (ev::nat) (c::nat list). (Inr (filter (\<lambda>x. x < ev) c), details self))\<rparr> [1, 5, 2])) 3 [1, 5, 2]) = Inr [1, 2]))
   \<and> fst (ObjectFilter_call
        \<lparr>name = ''below'', total = 4, passing = 1, details = [], hooks = None,
        passthrough = False, count_events = False,
        filtered = (\<lambda>self (ev::nat) (c::nat list). (Inr (filter (\<lambda>x. x < ev) c), details self))\<rparr>
        3 [1, 5, 2] ([] :: (nat, nat) effect list)) = Inr [1, 2]
   \<and> total (fst (snd (ObjectFilter_call
        \<lparr>name = ''below'', total = 4, passing = 1, details = [], hooks = None,
        passthrough = False, count_events = False,
        filtered = (\<lambda>self (ev::nat) (c::nat list). (Inr (filter (\<lambda>x. x < ev) c), details self))\<rparr>
        3 [1, 5, 2] ([] :: (nat, nat) effect list)))) = 7
   \<and> passing (fst (snd (ObjectFilter_call
        \<lparr>name = ''below'', total = 4, passing = 1, details = [], hooks = None,
        passthrough = False, count_events = False,
        filtered = (\<lambda>self (ev::nat) (c::nat list). (Inr (filter (\<lambda>x. x < ev) c), details self))\<rparr>
        3 [1, 5, 2] ([] :: (nat, nat) effect list)))) = 3
   \<and> snd (snd (ObjectFilter_call
        \<lparr>name = ''below'', total = 4, passing = 1, details = [], hooks = None,
        passthrough = False, count_events = False,
        filtered = (\<lambda>self (ev::nat) (c::nat list). (Inr (filter (\<lambda>x. x < ev) c), details self))\<rparr>
        3 [1, 5, 2] ([] :: (nat, nat) effect list))) = [Filtered ''below'' 3 [1, 5, 2]]
   \<and> ((passthrough \<lparr>name = ''skipped'', total = 4, passing = 1, details = [], hooks = None,
        passthrough = True, count_events = True,
        filtered = (ObjectFilter_filtered :: Filter \<Rightarrow> nat \<Rightarrow> nat list \<Rightarrow> (error + nat list) \<times> (string, int) pydict)\<rparr> \<and> [1, 5, 2] = [1, 5, (2::nat)])
    \<or> (\<not> passthrough \<lparr>name = ''skipped'', total = 4, passing = 1, details = [], hooks = None,
        passthrough = True, count_events = True,
        filtered = (ObjectFilter_filtered :: Filter \<Rightarrow> nat \<Rightarrow> nat list \<Rightarrow> (error + nat list) \<times> (string, int) pydict)\<rparr>
      \<and> fst (filtered \<lparr>name = ''skipped'', total = 4, passing = 1, details = [], hooks = None,
        passthrough = True, count_events = True,
        filtered = (ObjectFilter_filtered :: Filter \<Rightarrow> nat \<Rightarrow> nat list \<Rightarrow> (error + nat list) \<times> (string, int) pydict)\<rparr>
           (Filter.truncate (count_input \<lparr>name = ''skipped'', total = 4, passing = 1, details = [], hooks = None,
        passthrough = True, count_events = True,
        filtered = (ObjectFilter_filtered :: Filter \<Rightarrow> nat \<Rightarrow> nat list \<Rightarrow> (error + nat list) \<times> (string, int) pydict)\<rparr> [1, 5, 2])) 3 [1, 5, 2]) = Inr [1, 5, 2]))
   \<and> fst (ObjectFilter_call
        \<lparr>name = ''skipped'', total = 4, passing = 1, details = [], hooks = None,
        passthrough = True, count_events = True,
        filtered = (ObjectFilter_filtered :: Filter \<Rightarrow> nat \<Rightarrow> nat list \<Rightarrow> (error + nat list) \<times> (string, int) pydict)\<rparr>
        3 [1, 5, 2] ([] :: (nat, nat) effect list)) = Inr [1, 5, 2]
   \<and> total (fst (snd (ObjectFilter_call
        \<lparr>name = ''skipped'', total = 4, passing = 1, details = [], hooks = None,
        passthrough = True, count_events = True,
        filtered = (ObjectFilter_filtered :: Filter \<Rightarrow> nat \<Rightarrow> nat list \<Rightarrow> (error + nat list) \<times> (string, int) pydict)\<rparr>
        3 [1, 5, 2] ([] :: (nat, nat) effect list)))) = 5
   \<and> passing (fst (snd (ObjectFilter_call
        \<lparr>name = ''skipped'', total = 4, passing = 1, details = [], hooks = None,
        passthrough = True, count_events = True,
        filtered = (ObjectFilter_filtered :: Filter \<Rightarrow> nat \<Rightarrow> nat list \<Rightarrow> (error + nat list) \<times> (string, int) pydict)\<rparr>
        3 [1, 5, 2] ([] :: (nat, nat) effect list)))) = 2
   \<and> snd (snd (ObjectFilter_call
        \<lparr>name = ''skipped'', total = 4, passing = 1, details = [], hooks = None,
        passthrough = True, count_events = True,
        filtered = (ObjectFilter_filtered :: Filter \<Rightarrow> nat \<Rightarrow> nat list \<Rightarrow> (error + nat list) \<times> (string, int) pydict)\<rparr>
        3 [1, 5, 2] ([] :: (nat, nat) effect list))) = []"
proof -
  have h1: "(passthrough \<lparr>name = ''below'', total = 4, passing = 1, details = [], hooks = None,
        passthrough = False, count_events = False,
        filtered = (\<lambda>self (ev::nat) (c::nat list). (Inr (filter (\<lambda>x. x < ev) c), details self))\<rparr> \<and> [1, 2] = [1, 5, (2::nat)])
    \<or> (\<not> passthrough \<lparr>name = ''below'', total = 4, passing = 1, details = [], hooks = None,
        passthrough = False, count_events = False,
        filtered = (\<lambda>self (ev::nat) (c::nat list). (Inr (filter (\<lambda>x. x < ev) c), details self))\<rparr>
      \<and> fst (filtered \<lparr>name = ''below'', total = 4, passing = 1, details = [], hooks = None,
        passthrough = False, count_events = False,
        filtered = (\<lambda>self (ev::nat) (c::nat list). (Inr (filter (\<lambda>x. x < ev) c), details self))\<rparr>
           (Filter.truncate (count_input \<lparr>name = ''below'', total = 4, passing = 1, details = [], hooks = None,
        passthrough = False, count_events = False,
        filtered = (\<lambda>self (ev::nat) (c::nat list). (Inr (filter (\<lambda>x. x < ev) c), details self))\<rparr> [1, 5, 2])) 3 [1, 5, 2]) = Inr [1, 2])"
    by simp
  have h2: "(passthrough \<lparr>name = ''skipped'', total = 4, passing = 1, details = [], hooks = None,
        passthrough = True, count_events = True,
        filtered = (ObjectFilter_filtered :: Filter \<Rightarrow> nat \<Rightarrow> nat list \<Rightarrow> (error + nat list) \<times> (string, int) pydict)\<rparr> \<and> [1, 5, 2] = [1, 5, (2::nat)])
    \<or> (\<not> passthrough \<lparr>name = ''skipped'', total = 4, passing = 1, details = [], hooks = None,
        passthrough = True, count_events = True,
        filtered = (ObjectFilter_filtered :: Filter \<Rightarrow> nat \<Rightarrow> nat list \<Rightarrow> (error + nat list) \<times> (string, int) pydict)\<rparr>
      \<and> fst (filtered \<lparr>name = ''skipped'', total = 4, passing = 1, details = [], hooks = None,
        passthrough = True, count_events = True,
        filtered = (ObjectFilter_filtered :: Filter \<Rightarrow> nat \<Rightarrow> nat list \<Rightarrow> (error + nat list) \<times> (string, int) pydict)\<rparr>
           (Filter.truncate (count_input \<lparr>name = ''skipped'', total = 4, passing = 1, details = [], hooks = None,
        passthrough = True, count_events = True,
        filtered = (ObjectFilter_filtered :: Filter \<Rightarrow> nat \<Rightarrow> nat list \<Rightarrow> (error + nat list) \<times> (string, int) pydict)\<rparr> [1, 5, 2])) 3 [1, 5, 2]) = Inr [1, 5, 2])"
    by simp
  from ObjectFilter_counts [OF h1, of "([] :: (nat, nat) effect list)"]
  have t1: "fst (ObjectFilter_call
        \<lparr>name = ''below'', total = 4, passing = 1, details = [], hooks = None,
        passthrough = False, count_events = False,
        filtered = (\<lambda>self (ev::nat) (c::nat list). (Inr (filter (\<lambda>x. x < ev) c), details self))\<rparr>
        3 [1, 5, 2] ([] :: (nat, nat) effect list)) = Inr [1, 2]
   \<and> total (fst (snd (ObjectFilter_call
        \<lparr>name = ''below'', total = 4, passing = 1, details = [], hooks = None,
        passthrough = False, count_events = False,
        filtered = (\<lambda>self (ev::nat) (c::nat list). (Inr (filter (\<lambda>x. x < ev) c), details self))\<rparr>
        3 [1, 5, 2] ([] :: (nat, nat) effect list)))) = 7
   \<and> passing (fst (snd (ObjectFilter_call
        \<lparr>name = ''below'', total = 4, passing = 1, details = [], hooks = None,
        passthrough = False, count_events = False,
        filtered = (\<lambda>self (ev::nat) (c::nat list). (Inr (filter (\<lambda>x. x < ev) c), details self))\<rparr>
        3 [1, 5, 2] ([] :: (nat, nat) effect list)))) = 3
   \<and> snd (snd (ObjectFilter_call
        \<lparr>name = ''below'', total = 4, passing = 1, details = [], hooks = None,
        passthrough = False, count_events = False,
        filtered = (\<lambda>self (ev::nat) (c::nat list). (Inr (filter (\<lambda>x. x < ev) c), details self))\<rparr>
        3 [1, 5, 2] ([] :: (nat, nat) effect list))) = [Filtered ''below'' 3 [1, 5, 2]]"
    by simp
  from ObjectFilter_counts [OF h2, of "([] :: (nat, nat) effect list)"]
  have t2: "fst (ObjectFilter_call
        \<lparr>name = ''skipped'', total = 4, passing = 1, details = [], hooks = None,
        passthrough = True, count_events = True,
        filtered = (ObjectFilter_filtered :: Filter \<Rightarrow> nat \<Rightarrow> nat list \<Rightarrow> (error + nat list) \<times> (string, int) pydict)\<rparr>
        3 [1, 5, 2] ([] :: (nat, nat) effect list)) = Inr [1, 5, 2]
   \<and> total (fst (snd (ObjectFilter_call
        \<lparr>name = ''skipped'', total = 4, passing = 1, details = [], hooks = None,
        passthrough = True, count_events = True,
        filtered = (ObjectFilter_filtered :: Filter \<Rightarrow> nat \<Rightarrow> nat list \<Rightarrow> (error + nat list) \<times> (string, int) pydict)\<rparr>
        3 [1, 5, 2] ([] :: (nat, nat) effect list)))) = 5
   \<and> passing (fst (snd (ObjectFilter_call
        \<lparr>name = ''skipped'', total = 4, passing = 1, details = [], hooks = None,
        passthrough = True, count_events = True,
        filtered = (ObjectFilter_filtered :: Filter \<Rightarrow> nat \<Rightarrow> nat list \<Rightarrow> (error + nat list) \<times> (string, int) pydict)\<rparr>
        3 [1, 5, 2] ([] :: (nat, nat) effect list)))) = 2
   \<and> snd (snd (ObjectFilter_call
        \<lparr>name = ''skipped'', total = 4, passing = 1, details = [], hooks = None,
        passthrough = True, count_events = True,
        filtered = (ObjectFilter_filtered :: Filter \<Rightarrow> nat \<Rightarrow> nat list \<Rightarrow> (error + nat list) \<times> (string, int) pydict)\<rparr>
        3 [1, 5, 2] ([] :: (nat, nat) effect list))) = []"
    by simp
  from h1 h2 t1 t2 show ?thesis by blast
qed

text \<open>
  Claim C8 as stated fails: a passthrough stage whose second hook raises does not return
  true.
\<close>

theorem EventFilter_passthrough_counterexample:
  "passthrough \<lparr>name = ''trigger'', total = 5, passing = 5, details = [], hooks = Some [\<lparr>target = ''log'', args = [], raises = None\<rparr>,
          \<lparr>target = ''plot'', args = [], raises = Some (Raised ''boom'')\<rparr>,
          \<lparr>target = ''save'', args = [], raises = None\<rparr>],
        passthrough = True, passes = (EventFilter_passes :: Filter \<Rightarrow> nat \<Rightarrow> (error + bool) \<times> (string, int) pydict)\<rparr>
   \<and> fst (EventFilter_call
        \<lparr>name = ''trigger'', total = 5, passing = 5, details = [], hooks = Some [\<lparr>target = ''log'', args = [], raises = None\<rparr>,
          \<lparr>target = ''plot'', args = [], raises = Some (Raised ''boom'')\<rparr>,
          \<lparr>target = ''save'', args = [], raises = None\<rparr>],
        passthrough = True, passes = (EventFilter_passes :: Filter \<Rightarrow> nat \<Rightarrow> (error + bool) \<times> (string, int) pydict)\<rparr>
        0 ([] :: (nat, unit) effect list)) = Inl (Raised ''boom'')"
  by (simp add: eval_call)

text \<open>
  The amended claim C8 at a passthrough stage whose hook returns and at one whose
  second hook raises, both with the inherited \<open>passes\<close>.
\<close>

theorem EventFilter_passthrough_witness:
  "passthrough \<lparr>name = ''trigger'', total = 5, passing = 5, details = [], hooks = Some [\<lparr>target = ''log'', args = [], raises = None\<rparr>],
        passthrough = True, passes = (EventFilter_passes :: Filter \<Rightarrow> nat \<Rightarrow> (error + bool) \<times> (string, int) pydict)\<rparr>
   \<and> EventFilter_call
        \<lparr>name = ''trigger'', total = 5, passing = 5, details = [], hooks = Some [\<lparr>target = ''log'', args = [], raises = None\<rparr>],
        passthrough = True, passes = (EventFilter_passes :: Filter \<Rightarrow> nat \<Rightarrow> (error + bool) \<times> (string, int) pydict)\<rparr>
        0 ([] :: (nat, unit) effect list)
     = (Inr True,
        \<lparr>name = ''trigger'', total = 5, passing = 5, details = [], hooks = Some [\<lparr>target = ''log'', args = [], raises = None\<rparr>],
        passthrough = True, passes = (EventFilter_passes :: Filter \<Rightarrow> nat \<Rightarrow> (error + bool) \<times> (string, int) pydict)\<rparr>\<lparr>total := 6, passing := 6\<rparr>,
        [Hook ''log'' []])
   \<and> passthrough \<lparr>name = ''trigger'', total = 5, passing = 5, details = [], hooks = Some [\<lparr>target = ''log'', args = [], raises = None\<rparr>,
          \<lparr>target = ''plot'', args = [], raises = Some (Raised ''boom'')\<rparr>,
          \<lparr>target = ''save'', args = [], raises = None\<rparr>],
        passthrough = True, passes = (EventFilter_passes :: Filter \<Rightarrow> nat \<Rightarrow> (error + bool) \<times> (string, int) pydict)\<rparr>
   \<and> EventFilter_call
        \<lparr>name = ''trigger'', total = 5, passing = 5, details = [], hooks = Some [\<lparr>target = ''log'', args = [], raises = None\<rparr>,
          \<lparr>target = ''plot'', args = [], raises = Some (Raised ''boom'')\<rparr>,
          \<lparr>target = ''save'', args = [], raises = None\<rparr>],
        passthrough = True, passes = (EventFilter_passes :: Filter \<Rightarrow> nat \<Rightarrow> (error + bool) \<times> (string, int) pydict)\<rparr>
        0 ([] :: (nat, unit) effect list)
     = (Inl (Raised ''boom''),
        \<lparr>name = ''trigger'', total = 5, passing = 5, details = [], hooks = Some [\<lparr>target = ''log'', args = [], raises = None\<rparr>,
          \<lparr>target = ''plot'', args = [], raises = Some (Raised ''boom'')\<rparr>,
          \<lparr>target = ''save'', args = [], raises = None\<rparr>],
        passthrough = True, passes = (EventFilter_passes :: Filter \<Rightarrow> nat \<Rightarrow> (error + bool) \<times> (string, int) pydict)\<rparr>\<lparr>total := 6\<rparr>,
        [Hook ''log'' [], Hook ''plot'' []])"
proof -
  have h1: "passthrough \<lparr>name = ''trigger'', total = 5, passing = 5, details = [], hooks = Some [\<lparr>target = ''log'', args = [], raises = None\<rparr>],
        passthrough = True, passes = (EventFilter_passes :: Filter \<Rightarrow> nat \<Rightarrow> (error + bool) \<times> (string, int) pydict)\<rparr>"
    by simp
  have h2: "passthrough \<lparr>name = ''trigger'', total = 5, passing = 5, details = [], hooks = Some [\<lparr>target = ''log'', args = [], raises = None\<rparr>,
          \<lparr>target = ''plot'', args = [], raises = Some (Raised ''boom'')\<rparr>,
          \<lparr>target = ''save'', args = [], raises = None\<rparr>],
        passthrough = True, passes = (EventFilter_passes :: Filter \<Rightarrow> nat \<Rightarrow> (error + bool) \<times> (string, int) pydict)\<rparr>"
    by simp
  have ok: "\<forall>x \<in> set (hooks_of \<lparr>name = ''trigger'', total = 5, passing = 5, details = [], hooks = Some [\<lparr>target = ''log'', args = [], raises = None\<rparr>],
        passthrough = True, passes = (EventFilter_passes :: Filter \<Rightarrow> nat \<Rightarrow> (error + bool) \<times> (string, int) pydict)\<rparr>). raises x = None"
    by (simp add: hooks_of_def)
  have a: "EventFilter_call
        \<lparr>name = ''trigger'', total = 5, passing = 5, details = [], hooks = Some [\<lparr>target = ''log'', args = [], raises = None\<rparr>],
        passthrough = True, passes = (EventFilter_passes :: Filter \<Rightarrow> nat \<Rightarrow> (error + bool) \<times> (string, int) pydict)\<rparr>
        0 ([] :: (nat, unit) effect list)
     = (Inr True,
        \<lparr>name = ''trigger'', total = 5, passing = 5, details = [], hooks = Some [\<lparr>target = ''log'', args = [], raises = None\<rparr>],
        passthrough = True, passes = (EventFilter_passes :: Filter \<Rightarrow> nat \<Rightarrow> (error + bool) \<times> (string, int) pydict)\<rparr>\<lparr>total := 6, passing := 6\<rparr>,
        [Hook ''log'' []])"
    using conjunct1 [OF EventFilter_passthrough [OF h1, of 0 "([] :: (nat, unit) effect list)"], THEN mp, OF ok]
    by (simp add: hooks_of_def hook_entry_def)
  have bad: "hooks_of \<lparr>name = ''trigger'', total = 5, passing = 5, details = [], hooks = Some [\<lparr>target = ''log'', args = [], raises = None\<rparr>,
          \<lparr>target = ''plot'', args = [], raises = Some (Raised ''boom'')\<rparr>,
          \<lparr>target = ''save'', args = [], raises = None\<rparr>],
        passthrough = True, passes = (EventFilter_passes :: Filter \<Rightarrow> nat \<Rightarrow> (error + bool) \<times> (string, int) pydict)\<rparr>
      = [\<lparr>target = ''log'', args = [], raises = None\<rparr>] @ \<lparr>target = ''plot'', args = [], raises = Some (Raised ''boom'')\<rparr> # [\<lparr>target = ''save'', args = [], raises = None\<rparr>]
    \<and> (\<forall>x \<in> set [\<lparr>target = ''log'', args = [], raises = None\<rparr>]. raises x = None)
    \<and> raises \<lparr>target = ''plot'', args = [], raises = Some (Raised ''boom'')\<rparr> = Some (Raised ''boom'')"
    by (simp add: hooks_of_def)
  have b: "EventFilter_call
        \<lparr>name = ''trigger'', total = 5, passing = 5, details = [], hooks = Some [\<lparr>target = ''log'', args = [], raises = None\<rparr>,
          \<lparr>target = ''plot'', args = [], raises = Some (Raised ''boom'')\<rparr>,
          \<lparr>target = ''save'', args = [], raises = None\<rparr>],
        passthrough = True, passes = (EventFilter_passes :: Filter \<Rightarrow> nat \<Rightarrow> (error + bool) \<times> (string, int) pydict)\<rparr>
        0 ([] :: (nat, unit) effect list)
     = (Inl (Raised ''boom''),
        \<lparr>name = ''trigger'', total = 5, passing = 5, details = [], hooks = Some [\<lparr>target = ''log'', args = [], raises = None\<rparr>,
          \<lparr>target = ''plot'', args = [], raises = Some (Raised ''boom'')\<rparr>,
          \<lparr>target = ''save'', args = [], raises = None\<rparr>],
        passthrough = True, passes = (EventFilter_passes :: Filter \<Rightarrow> nat \<Rightarrow> (error + bool) \<times> (string, int) pydict)\<rparr>\<lparr>total := 6\<rparr>,
        [Hook ''log'' [], Hook ''plot'' []])"
    using conjunct2 [OF EventFilter_passthrough [OF h2, of 0 "([] :: (nat, unit) effect list)"], rule_format, OF bad]
    by (simp add: hook_entry_def)
  from h1 h2 a b show ?thesis by (intro conjI)
qed

text \<open>
  Claim C10 as stated fails: a \<open>passes\<close> that notes the event in \<open>self.details\<close> and then
  raises leaves details changed.
\<close>

theorem failed_call_counts_total_counterexample:
  "\<not> passthrough \<lparr>name = ''noisy'', total = 4, passing = 3, details = [], hooks = None,
        passthrough = False, passes = (\<lambda>self (e::nat). (Inl (Raised ''bad event''), [(''seen'', 1)]))\<rparr>
   \<and> fst (EventFilter_call
        \<lparr>name = ''noisy'', total = 4, passing = 3, details = [], hooks = None,
        passthrough = False, passes = (\<lambda>self (e::nat). (Inl (Raised ''bad event''), [(''seen'', 1)]))\<rparr>
        0 ([] :: (nat, unit) effect list)) = Inl (Raised ''bad event'')
   \<and> details \<lparr>name = ''noisy'', total = 4, passing = 3, details = [], hooks = None,
        passthrough = False, passes = (\<lambda>self (e::nat). (Inl (Raised ''bad event''), [(''seen'', 1)]))\<rparr> = []
   \<and> details (fst (snd (EventFilter_call
        \<lparr>name = ''noisy'', total = 4, passing = 3, details = [], hooks = None,
        passthrough = False, passes = (\<lambda>self (e::nat). (Inl (Raised ''bad event''), [(''seen'', 1)]))\<rparr>
        0 ([] :: (nat, unit) effect list)))) = [(''seen'', 1)]"
  by (simp add: eval_call)

text \<open>
  The amended claim C10 at an event stage and an object stage that override nothing,
  and at the stage whose \<open>passes\<close> writes details and raises.
\<close>

theorem failed_call_counts_total_witness:
  "(\<not> passthrough \<lparr>name = ''EventFilter'', total = 4, passing = 3, details = [], hooks = None,
        passthrough = False, passes = (EventFilter_passes :: Filter \<Rightarrow> nat \<Rightarrow> (error + bool) \<times> (string, int) pydict)\<rparr>
    \<and> passes \<lparr>name = ''EventFilter'', total = 4, passing = 3, details = [], hooks = None,
        passthrough = False, passes = (EventFilter_passes :: Filter \<Rightarrow> nat \<Rightarrow> (error + bool) \<times> (string, int) pydict)\<rparr> = EventFilter_passes)
   \<and> fst (EventFilter_call
        \<lparr>name = ''EventFilter'', total = 4, passing = 3, details = [], hooks = None,
        passthrough = False, passes = (EventFilter_passes :: Filter \<Rightarrow> nat \<Rightarrow> (error + bool) \<times> (string, int) pydict)\<rparr>
        0 ([] :: (nat, unit) effect list)) = Inl (NotImplementedError ''You must override this method in your derived class'')
   \<and> total (fst (snd (EventFilter_call
        \<lparr>name = ''EventFilter'', total = 4, passing = 3, details = [], hooks = None,
        passthrough = False, passes = (EventFilter_passes :: Filter \<Rightarrow> nat \<Rightarrow> (error + bool) \<times> (string, int) pydict)\<rparr>
        0 ([] :: (nat, unit) effect list)))) = 5
   \<and> passing (fst (snd (EventFilter_call
        \<lparr>name = ''EventFilter'', total = 4, passing = 3, details = [], hooks = None,
        passthrough = False, passes = (EventFilter_passes :: Filter \<Rightarrow> nat \<Rightarrow> (error + bool) \<times> (string, int) pydict)\<rparr>
        0 ([] :: (nat, unit) effect list)))) = 3
   \<and> details (fst (snd (EventFilter_call
        \<lparr>name = ''EventFilter'', total = 4, passing = 3, details = [], hooks = None,
        passthrough = False, passes = (EventFilter_passes :: Filter \<Rightarrow> nat \<Rightarrow> (error + bool) \<times> (string, int) pydict)\<rparr>
        0 ([] :: (nat, unit) effect list)))) = []
   \<and> \<not> passthrough \<lparr>name = ''noisy'', total = 4, passing = 3, details = [], hooks = None,
        passthrough = False, passes = (\<lambda>self (e::nat). (Inl (Raised ''bad event''), [(''seen'', 1)]))\<rparr>
   \<and> fst (EventFilter_call
        \<lparr>name = ''noisy'', total = 4, passing = 3, details = [], hooks = None,
        passthrough = False, passes = (\<lambda>self (e::nat). (Inl (Raised ''bad event''), [(''seen'', 1)]))\<rparr>
        0 ([] :: (nat, unit) effect list)) = Inl (Raised ''bad event'')
   \<and> total (fst (snd (EventFilter_call
        \<lparr>name = ''noisy'', total = 4, passing = 3, details = [], hooks = None,
        passthrough = False, passes = (\<lambda>self (e::nat). (Inl (Raised ''bad event''), [(''seen'', 1)]))\<rparr>
        0 ([] :: (nat, unit) effect list)))) = 5
   \<and> passing (fst (snd (EventFilter_call
        \<lparr>name = ''noisy'', total = 4, passing = 3, details = [], hooks = None,
        passthrough = False, passes = (\<lambda>self (e::nat). (Inl (Raised ''bad event''), [(''seen'', 1)]))\<rparr>
        0 ([] :: (nat, unit) effect list)))) = 3
   \<and> details (fst (snd (EventFilter_call
        \<lparr>name = ''noisy'', total = 4, passing = 3, details = [], hooks = None,
        passthrough = False, passes = (\<lambda>self (e::nat). (Inl (Raised ''bad event''), [(''seen'', 1)]))\<rparr>
        0 ([] :: (nat, unit) effect list)))) = [(''seen'', 1)]
   \<and> (\<not> passthrough \<lparr>name = ''ObjectFilter'', total = 4, passing = 1, details = [], hooks = None,
        passthrough = False, count_events = False,
        filtered = (ObjectFilter_filtered :: Filter \<Rightarrow> nat \<Rightarrow> nat list \<Rightarrow> (error + nat list) \<times> (string, int) pydict)\<rparr>
    \<and> filtered \<lparr>name = ''ObjectFilter'', total = 4, passing = 1, details = [], hooks = None,
        passthrough = False, count_events = False,
        filtered = (ObjectFilter_filtered :: Filter \<Rightarrow> nat \<Rightarrow> nat list \<Rightarrow> (error + nat list) \<times> (string, int) pydict)\<rparr> = ObjectFilter_filtered)
   \<and> fst (ObjectFilter_call
        \<lparr>name = ''ObjectFilter'', total = 4, passing = 1, details = [], hooks = None,
        passthrough = False, count_events = False,
        filtered = (ObjectFilter_filtered :: Filter \<Rightarrow> nat \<Rightarrow> nat list \<Rightarrow> (error + nat list) \<times> (string, int) pydict)\<rparr>
        3 [1, 5, 2] ([] :: (nat, nat) effect list)) = Inl (NotImplementedError ''You must override this method in your derived class'')
   \<and> total (fst (snd (ObjectFilter_call
        \<lparr>name = ''ObjectFilter'', total = 4, passing = 1, details = [], hooks = None,
        passthrough = False, count_events = False,
        filtered = (ObjectFilter_filtered :: Filter \<Rightarrow> nat \<Rightarrow> nat list \<Rightarrow> (error + nat list) \<times> (string, int) pydict)\<rparr>
        3 [1, 5, 2] ([] :: (nat, nat) effect list)))) = 7
   \<and> passing (fst (snd (ObjectFilter_call
        \<lparr>name = ''ObjectFilter'', total = 4, passing = 1, details = [], hooks = None,
        passthrough = False, count_events = False,
        filtered = (ObjectFilter_filtered :: Filter \<Rightarrow> nat \<Rightarrow> nat list \<Rightarrow> (error + nat list) \<times> (string, int) pydict)\<rparr>
        3 [1, 5, 2] ([] :: (nat, nat) effect list)))) = 1
   \<and> details (fst (snd (ObjectFilter_call
        \<lparr>name = ''ObjectFilter'', total = 4, passing = 1, details = [], hooks = None,
        passthrough = False, count_events = False,
        filtered = (ObjectFilter_filtered :: Filter \<Rightarrow> nat \<Rightarrow> nat list \<Rightarrow> (error + nat list) \<times> (string, int) pydict)\<rparr>
        3 [1, 5, 2] ([] :: (nat, nat) effect list)))) = []"
proof -
  have h1: "\<not> passthrough \<lparr>name = ''EventFilter'', total = 4, passing = 3, details = [], hooks = None,
        passthrough = False, passes = (EventFilter_passes :: Filter \<Rightarrow> nat \<Rightarrow> (error + bool) \<times> (string, int) pydict)\<rparr>
    \<and> passes \<lparr>name = ''EventFilter'', total = 4, passing = 3, details = [], hooks = None,
        passthrough = False, passes = (EventFilter_passes :: Filter \<Rightarrow> nat \<Rightarrow> (error + bool) \<times> (string, int) pydict)\<rparr> = EventFilter_passes"
    by simp
  have h2: "\<not> passthrough \<lparr>name = ''ObjectFilter'', total = 4, passing = 1, details = [], hooks = None,
        passthrough = False, count_events = False,
        filtered = (ObjectFilter_filtered :: Filter \<Rightarrow> nat \<Rightarrow> nat list \<Rightarrow> (error + nat list) \<times> (string, int) pydict)\<rparr>
    \<and> filtered \<lparr>name = ''ObjectFilter'', total = 4, passing = 1, details = [], hooks = None,
        passthrough = False, count_events = False,
        filtered = (ObjectFilter_filtered :: Filter \<Rightarrow> nat \<Rightarrow> nat list \<Rightarrow> (error + nat list) \<times> (string, int) pydict)\<rparr> = ObjectFilter_filtered"
    by simp
  have h3: "\<not> passthrough \<lparr>name = ''noisy'', total = 4, passing = 3, details = [], hooks = None,
        passthrough = False, passes = (\<lambda>self (e::nat). (Inl (Raised ''bad event''), [(''seen'', 1)]))\<rparr>
    \<and> passes \<lparr>name = ''noisy'', total = 4, passing = 3, details = [], hooks = None,
        passthrough = False, passes = (\<lambda>self (e::nat). (Inl (Raised ''bad event''), [(''seen'', 1)]))\<rparr>
        (Filter.truncate (\<lparr>name = ''noisy'', total = 4, passing = 3, details = [], hooks = None,
        passthrough = False, passes = (\<lambda>self (e::nat). (Inl (Raised ''bad event''), [(''seen'', 1)]))\<rparr>\<lparr>total := total \<lparr>name = ''noisy'', total = 4, passing = 3, details = [], hooks = None,
        passthrough = False, passes = (\<lambda>self (e::nat). (Inl (Raised ''bad event''), [(''seen'', 1)]))\<rparr> + 1\<rparr>)) 0
      = (Inl (Raised ''bad event''), [(''seen'', 1)])"
    by simp
  note t = failed_call_counts_total
    [of "\<lparr>name = ''EventFilter'', total = 4, passing = 3, details = [], hooks = None,
        passthrough = False, passes = (EventFilter_passes :: Filter \<Rightarrow> nat \<Rightarrow> (error + bool) \<times> (string, int) pydict)\<rparr>" 0 _ _ "([] :: (nat, unit) effect list)"
        "\<lparr>name = ''ObjectFilter'', total = 4, passing = 1, details = [], hooks = None,
        passthrough = False, count_events = False,
        filtered = (ObjectFilter_filtered :: Filter \<Rightarrow> nat \<Rightarrow> nat list \<Rightarrow> (error + nat list) \<times> (string, int) pydict)\<rparr>" "[1, 5, 2]" 3 _ _ "([] :: (nat, nat) effect list)"]
  note t3 = failed_call_counts_total
    [of "\<lparr>name = ''noisy'', total = 4, passing = 3, details = [], hooks = None,
        passthrough = False, passes = (\<lambda>self (e::nat). (Inl (Raised ''bad event''), [(''seen'', 1)]))\<rparr>" 0 "Raised ''bad event''" "[(''seen'', 1)]" "([] :: (nat, unit) effect list)",
     THEN conjunct1, THEN mp, OF h3]
  from t h1 have a: "EventFilter_call
        \<lparr>name = ''EventFilter'', total = 4, passing = 3, details = [], hooks = None,
        passthrough = False, passes = (EventFilter_passes :: Filter \<Rightarrow> nat \<Rightarrow> (error + bool) \<times> (string, int) pydict)\<rparr>
        0 ([] :: (nat, unit) effect list)
      = (Inl (NotImplementedError ''You must override this method in your derived class''),
         \<lparr>name = ''EventFilter'', total = 4, passing = 3, details = [], hooks = None,
        passthrough = False, passes = (EventFilter_passes :: Filter \<Rightarrow> nat \<Rightarrow> (error + bool) \<times> (string, int) pydict)\<rparr>\<lparr>total := total \<lparr>name = ''EventFilter'', total = 4, passing = 3, details = [], hooks = None,
        passthrough = False, passes = (EventFilter_passes :: Filter \<Rightarrow> nat \<Rightarrow> (error + bool) \<times> (string, int) pydict)\<rparr> + 1\<rparr>,
         ([] :: (nat, unit) effect list) @ [Passes (name \<lparr>name = ''EventFilter'', total = 4, passing = 3, details = [], hooks = None,
        passthrough = False, passes = (EventFilter_passes :: Filter \<Rightarrow> nat \<Rightarrow> (error + bool) \<times> (string, int) pydict)\<rparr>) 0])"
    by blast
  from t h2 have b: "ObjectFilter_call
        \<lparr>name = ''ObjectFilter'', total = 4, passing = 1, details = [], hooks = None,
        passthrough = False, count_events = False,
        filtered = (ObjectFilter_filtered :: Filter \<Rightarrow> nat \<Rightarrow> nat list \<Rightarrow> (error + nat list) \<times> (string, int) pydict)\<rparr>
        3 [1, 5, 2] ([] :: (nat, nat) effect list)
      = (Inl (NotImplementedError ''You must override this method in your derived class''),
         \<lparr>name = ''ObjectFilter'', total = 4, passing = 1, details = [], hooks = None,
        passthrough = False, count_events = False,
        filtered = (ObjectFilter_filtered :: Filter \<Rightarrow> nat \<Rightarrow> nat list \<Rightarrow> (error + nat list) \<times> (string, int) pydict)\<rparr>\<lparr>total := total \<lparr>name = ''ObjectFilter'', total = 4, passing = 1, details = [], hooks = None,
        passthrough = False, count_events = False,
        filtered = (ObjectFilter_filtered :: Filter \<Rightarrow> nat \<Rightarrow> nat list \<Rightarrow> (error + nat list) \<times> (string, int) pydict)\<rparr>
            + (if count_events \<lparr>name = ''ObjectFilter'', total = 4, passing = 1, details = [], hooks = None,
        passthrough = False, count_events = False,
        filtered = (ObjectFilter_filtered :: Filter \<Rightarrow> nat \<Rightarrow> nat list \<Rightarrow> (error + nat list) \<times> (string, int) pydict)\<rparr> then 1 else int (length [1, 5, (2::nat)]))\<rparr>,
         ([] :: (nat, nat) effect list) @ [Filtered (name \<lparr>name = ''ObjectFilter'', total = 4, passing = 1, details = [], hooks = None,
        passthrough = False, count_events = False,
        filtered = (ObjectFilter_filtered :: Filter \<Rightarrow> nat \<Rightarrow> nat list \<Rightarrow> (error + nat list) \<times> (string, int) pydict)\<rparr>) 3 [1, 5, 2]])"
    by blast
  show ?thesis
    unfolding a b t3 using h1 h2 by simp
qed

subsection \<open>Kind checks of the lists\<close>




end
